theory Spec2Isabelle
  imports Complex_Main
begin

section \<open>Data model (types.ts)\<close>

text \<open>
  A JavaScript \<open>number\<close> that the typed interfaces carry is modelled as a \<^typ>\<open>real\<close>:
  arithmetic is exact, so the binary rounding of IEEE doubles is outside this model, and the
  decimal literals of the source (\<open>0.35\<close>, \<open>0.2\<close>, ...) denote the decimal fractions they are
  written as. A string is a \<^typ>\<open>string\<close>, read as the list of its code units, and
  \<open>length\<close> is the source's \<open>.length\<close>. An optional field (\<open>title?: string\<close>) is an
  \<open>option\<close>, \<open>None\<close> standing for \<open>undefined\<close>.
\<close>

record source =
  content :: string
  title :: "string option"
  url :: "string option"
  ident :: "string option"
  embedding :: "real list option"

record validation_input =
  query :: string
  response :: string
  sources :: "source list"

record accuracy_result =
  verified :: bool
  verification_rate :: real
  reason :: "string option"

record context_result =
  source_relevance :: real
  source_usage_rate :: real
  valid :: bool

record hallucination_result =
  detected :: bool
  risk :: real
  hallucinated_parts :: "string list option"

datatype level = High | Medium | Low

record breakdown =
  accuracy_score :: real
  context_score :: real
  hallucination_score :: real
  source_quality :: real

record confidence_result =
  confidence_score :: real
  level :: level
  breakdown :: breakdown

section \<open>ConfidenceScorer\<close>

text \<open>
  The optional argument \<open>enabledChecks?: { accuracy: boolean; hallucination: boolean }\<close>.
  The source reads both flags through \<open>?.\<close> and \<open>??\<close>, so a flag that is absent at run time
  is a case of the code: each flag is a \<open>bool option\<close>.
\<close>

record enabled_checks =
  accuracy :: "bool option"
  hallucination :: "bool option"

record weights =
  w_accuracy :: real
  w_context :: real
  w_hallucination :: real
  w_sourceQuality :: real

text \<open>\<open>enabledChecks?.accuracy ?? true\<close> and \<open>enabledChecks?.hallucination ?? true\<close>.\<close>

definition accuracyEnabled :: "enabled_checks option \<Rightarrow> bool" where
  "accuracyEnabled enabledChecks =
     (case enabledChecks of
        None \<Rightarrow> True
      | Some e \<Rightarrow> (case accuracy e of None \<Rightarrow> True | Some b \<Rightarrow> b))"

definition hallucinationEnabled :: "enabled_checks option \<Rightarrow> bool" where
  "hallucinationEnabled enabledChecks =
     (case enabledChecks of
        None \<Rightarrow> True
      | Some e \<Rightarrow> (case hallucination e of None \<Rightarrow> True | Some b \<Rightarrow> b))"

text \<open>The \<open>if\<close>/\<open>else if\<close> chain of \<open>calculateConfidence\<close> that assigns \<open>weights\<close>.\<close>

definition selectWeights :: "bool \<Rightarrow> bool \<Rightarrow> weights" where
  "selectWeights accEnabled hallEnabled =
     (if \<not> accEnabled \<and> \<not> hallEnabled then
        \<lparr>w_accuracy = 0, w_context = 0.60, w_hallucination = 0, w_sourceQuality = 0.40\<rparr>
      else if \<not> accEnabled then
        \<lparr>w_accuracy = 0, w_context = 0.35, w_hallucination = 0.45, w_sourceQuality = 0.20\<rparr>
      else if \<not> hallEnabled then
        \<lparr>w_accuracy = 0.50, w_context = 0.30, w_hallucination = 0, w_sourceQuality = 0.20\<rparr>
      else
        \<lparr>w_accuracy = 0.35, w_context = 0.25, w_hallucination = 0.30, w_sourceQuality = 0.10\<rparr>)"

text \<open>
  The weights whose metric the source lists as active (\<open>if (weights.accuracy > 0)
  activeMetrics.push(...)\<close>, and so on for the other three).
\<close>

definition activeWeights :: "weights \<Rightarrow> real list" where
  "activeWeights w =
     (if w_accuracy w > 0 then [w_accuracy w] else []) @
     (if w_context w > 0 then [w_context w] else []) @
     (if w_hallucination w > 0 then [w_hallucination w] else []) @
     (if w_sourceQuality w > 0 then [w_sourceQuality w] else [])"

text \<open>\<open>Math.round\<close>: the nearest integer, a tie going up.\<close>

definition Math_round :: "real \<Rightarrow> real" where
  "Math_round x = of_int \<lfloor>x + 1 / 2\<rfloor>"

text \<open>\<open>source.title && source.title.length > 0\<close>.\<close>

definition hasTitle :: "source \<Rightarrow> bool" where
  "hasTitle s = (case title s of None \<Rightarrow> False | Some t \<Rightarrow> length t > 0)"

text \<open>The body of the loop of \<open>calculateSourceQuality\<close> up to the cap, then the cap.\<close>

definition qualityBeforeCap :: "source \<Rightarrow> real" where
  "qualityBeforeCap s =
     (let quality = 0.5;
          quality = (if length (content s) > 100 then quality + 0.2 else quality);
          quality = (if length (content s) > 500 then quality + 0.2 else quality);
          quality = (if hasTitle s then quality + 0.1 else quality)
      in quality)"

definition quality :: "source \<Rightarrow> real" where
  "quality s = min (qualityBeforeCap s) 1.0"

text \<open>The \<open>for ... of\<close> loop, its accumulator \<open>totalQuality\<close> passed along.\<close>

fun qualityLoop :: "real \<Rightarrow> source list \<Rightarrow> real" where
  "qualityLoop totalQuality [] = totalQuality"
| "qualityLoop totalQuality (s # ss) = qualityLoop (totalQuality + quality s) ss"

definition calculateSourceQuality :: "source list \<Rightarrow> real" where
  "calculateSourceQuality srcs =
     (if length srcs = 0 then 0
      else qualityLoop 0 srcs / real (length srcs))"

subsection \<open>The quality of one source in double arithmetic\<close>

text \<open>
  The definitions above add the decimals exactly. The source adds doubles, and \<open>0.2\<close> and
  \<open>0.1\<close> are not doubles, so each literal and each sum is rounded. A double is modelled as
  the real it denotes. \<open>toDouble x\<close> is the double nearest to \<open>x\<close>, a tie going to the even
  significand: \<open>ulpOf\<close> finds the spacing of the doubles around \<open>x\<close> (\<open>2^-52\<close> between 1
  and 2, doubled or halved with every binade; 1100 steps reach every normal double; overflow
  and subnormal numbers are not modelled), and \<open>x\<close> is rounded to a multiple of it.
\<close>

definition roundTiesToEven :: "real \<Rightarrow> int" where
  "roundTiesToEven x =
     (let f = \<lfloor>x\<rfloor>
      in if x - of_int f < 1 / 2 then f
         else if x - of_int f > 1 / 2 then f + 1
         else if even f then f else f + 1)"

fun ulpOf :: "nat \<Rightarrow> real \<Rightarrow> real" where
  "ulpOf 0 x = 1 / 2 ^ 52"
| "ulpOf (Suc fuel) x =
     (if 2 \<le> x then 2 * ulpOf fuel (x / 2)
      else if x < 1 then ulpOf fuel (x * 2) / 2
      else 1 / 2 ^ 52)"

definition toDouble :: "real \<Rightarrow> real" where
  "toDouble x =
     (if x = 0 then 0
      else (let u = ulpOf 1100 \<bar>x\<bar>
            in sgn x * of_int (roundTiesToEven (\<bar>x\<bar> / u)) * u))"

text \<open>
  The body of the loop of \<open>calculateSourceQuality\<close> up to the cap, every literal and
  every \<open>+=\<close> rounded to a double.
\<close>

definition qualityBeforeCapDouble :: "source \<Rightarrow> real" where
  "qualityBeforeCapDouble s =
     (let quality = toDouble 0.5;
          quality = (if length (content s) > 100
                     then toDouble (quality + toDouble 0.2) else quality);
          quality = (if length (content s) > 500
                     then toDouble (quality + toDouble 0.2) else quality);
          quality = (if hasTitle s then toDouble (quality + toDouble 0.1) else quality)
      in quality)"

text \<open>The weighted sum \<open>confidenceScore\<close> before rounding.\<close>

definition weightedSum ::
  "weights \<Rightarrow> accuracy_result \<Rightarrow> context_result \<Rightarrow> hallucination_result \<Rightarrow> source list \<Rightarrow> real"
where
  "weightedSum w accuracyResult contextResult hallucinationResult srcs =
     (let accuracyScore = verification_rate accuracyResult;
          contextScore = source_relevance contextResult;
          hallucinationScore = 1 - risk hallucinationResult;
          sourceQualityScore = calculateSourceQuality srcs
      in accuracyScore * w_accuracy w + contextScore * w_context w
         + hallucinationScore * w_hallucination w + sourceQualityScore * w_sourceQuality w)"

text \<open>
  \<open>calculateConfidence\<close>. The \<open>console.log\<close> of the source writes to the console and
  leaves the result untouched; it is not part of the model.
\<close>

definition calculateConfidence ::
  "accuracy_result \<Rightarrow> context_result \<Rightarrow> hallucination_result \<Rightarrow> source list
     \<Rightarrow> enabled_checks option \<Rightarrow> confidence_result"
where
  "calculateConfidence accuracyResult contextResult hallucinationResult srcs enabledChecks =
     (let ws = selectWeights (accuracyEnabled enabledChecks) (hallucinationEnabled enabledChecks);
          accuracyScore = verification_rate accuracyResult;
          contextScore = source_relevance contextResult;
          hallucinationScore = 1 - risk hallucinationResult;
          sourceQualityScore = calculateSourceQuality srcs;
          confidenceScore = weightedSum ws accuracyResult contextResult hallucinationResult srcs;
          lvl = (if confidenceScore \<ge> 0.8 then High
                 else if confidenceScore \<ge> 0.5 then Medium
                 else Low)
      in \<lparr>confidence_score = Math_round (confidenceScore * 100) / 100,
          level = lvl,
          breakdown =
            \<lparr>accuracy_score = Math_round (accuracyScore * 100) / 100,
             context_score = Math_round (contextScore * 100) / 100,
             hallucination_score = Math_round (hallucinationScore * 100) / 100,
             source_quality = Math_round (sourceQualityScore * 100) / 100\<rparr>\<rparr>)"

section \<open>ContextValidator: the lexical fallback\<close>

text \<open>
  A character is a code unit below 256. On these, \<open>toLowerCase\<close> maps \<open>A\<close>--\<open>Z\<close> and the
  upper-case letters of Latin-1 (192--222 but the multiplication sign 215) to the letter 32
  above; \<open>\w\<close> is \<open>[A-Za-z0-9_]\<close>; \<open>\s\<close> is tab, line feed, vertical tab, form feed,
  carriage return, space and the no-break space.
\<close>

definition toLowerCaseChar :: "char \<Rightarrow> char" where
  "toLowerCaseChar c =
     (let n = (of_char c :: nat)
      in if (65 \<le> n \<and> n \<le> 90) \<or> (192 \<le> n \<and> n \<le> 222 \<and> n \<noteq> 215)
         then char_of (n + 32) else c)"

definition toLowerCase :: "string \<Rightarrow> string" where
  "toLowerCase s = map toLowerCaseChar s"

definition isWordChar :: "char \<Rightarrow> bool" where
  "isWordChar c =
     (let n = (of_char c :: nat)
      in (97 \<le> n \<and> n \<le> 122) \<or> (65 \<le> n \<and> n \<le> 90) \<or> (48 \<le> n \<and> n \<le> 57) \<or> n = 95)"

definition isWhitespace :: "char \<Rightarrow> bool" where
  "isWhitespace c = ((of_char c :: nat) \<in> {9, 10, 11, 12, 13, 32, 160})"

text \<open>\<open>.replace(/[^\w\s]/g, '')\<close>.\<close>

definition stripNonWord :: "string \<Rightarrow> string" where
  "stripNonWord s = filter (\<lambda>c. isWordChar c \<or> isWhitespace c) s"

text \<open>
  \<open>.split(/\s+/)\<close>: the pieces between the maximal runs of whitespace. The piece before a
  leading run and the piece after a trailing run are empty strings, and the empty string
  splits into one empty piece. \<open>cur\<close> is the piece being read.
\<close>

function splitLoop :: "string \<Rightarrow> string \<Rightarrow> string list" where
  "splitLoop cur [] = [cur]"
| "splitLoop cur (c # cs) =
     (if isWhitespace c then cur # splitLoop [] (dropWhile isWhitespace cs)
      else splitLoop (cur @ [c]) cs)"
  by pat_completeness auto
termination
  by (relation "measure (\<lambda>(cur, s). length s)")
     (auto simp: less_Suc_eq_le length_dropWhile_le)

definition split_ws :: "string \<Rightarrow> string list" where
  "split_ws s = splitLoop [] s"

text \<open>\<open>.join(' ')\<close>, for any separator.\<close>

fun join :: "string \<Rightarrow> string list \<Rightarrow> string" where
  "join sep [] = []"
| "join sep [x] = x"
| "join sep (x # y # ys) = x @ sep @ join sep (y # ys)"

text \<open>
  The two counting loops: \<open>for (const word of ws) if (others.includes(word)) count++\<close>.
\<close>

fun countIncluded :: "nat \<Rightarrow> string list \<Rightarrow> string list \<Rightarrow> nat" where
  "countIncluded count [] others = count"
| "countIncluded count (word # ws) others =
     countIncluded (if word \<in> set others then count + 1 else count) ws others"

definition wordMatchingValidation :: "string \<Rightarrow> string \<Rightarrow> source list \<Rightarrow> context_result" where
  "wordMatchingValidation qry resp srcs =
     (let cleanResponse = stripNonWord (toLowerCase resp);
          sourceContent = join '' '' (map (\<lambda>s. stripNonWord (toLowerCase (content s))) srcs);
          responseWords = filter (\<lambda>word. length word > 3) (split_ws cleanResponse);
          sourceWords = filter (\<lambda>word. length word > 3) (split_ws sourceContent);
          wordsInSource = countIncluded 0 responseWords sourceWords;
          sourceRelevance =
            (if length responseWords > 0
             then real wordsInSource / real (length responseWords) else 0.5);
          cleanQuery = stripNonWord (toLowerCase qry);
          queryWords = filter (\<lambda>word. length word > 2) (split_ws cleanQuery);
          queryWordsInResponse = countIncluded 0 queryWords responseWords;
          sourceUsageRate =
            (if length queryWords > 0
             then real queryWordsInResponse / real (length queryWords) else 0.5)
      in \<lparr>source_relevance = min sourceRelevance 1.0,
          source_usage_rate = sourceUsageRate,
          valid = (sourceRelevance > 0.3)\<rparr>)"

subsection \<open>The lexical fallback in the words of the specification\<close>

text \<open>
  The definitions of this subsection follow the specification, not the source: a text is
  normalised (lowercased, every character that is neither a word character nor whitespace
  stripped) and cut into its tokens, the maximal runs of characters that are not whitespace;
  the tokens longer than \<open>n\<close> are kept. The source contents are concatenated in their
  order, one space between two consecutive contents.
\<close>

definition spec_normalize :: "string \<Rightarrow> string" where
  "spec_normalize s = [c \<leftarrow> map toLowerCaseChar s. isWordChar c \<or> isWhitespace c]"

function spec_tokens :: "string \<Rightarrow> string list" where
  "spec_tokens s =
     (case dropWhile isWhitespace s of
        [] \<Rightarrow> []
      | c # cs \<Rightarrow>
          takeWhile (\<lambda>x. \<not> isWhitespace x) (c # cs)
            # spec_tokens (dropWhile (\<lambda>x. \<not> isWhitespace x) cs))"
  by pat_completeness auto
termination
proof (relation "measure length", goal_cases)
  case 1
  show ?case by simp
next
  case (2 s c cs)
  have "length (dropWhile (\<lambda>x. \<not> isWhitespace x) cs) \<le> length cs"
    by (rule length_dropWhile_le)
  moreover have "length (c # cs) \<le> length s"
    using 2 length_dropWhile_le [of isWhitespace s] by simp
  ultimately show ?case by simp
qed

declare spec_tokens.simps [simp del]

definition spec_kept :: "nat \<Rightarrow> string \<Rightarrow> string list" where
  "spec_kept n s = [t \<leftarrow> spec_tokens (spec_normalize s). length t > n]"

text \<open>
  The share of the tokens \<open>ts\<close> that are present among \<open>others\<close>, with the neutral value
  for no token at all.
\<close>

definition spec_share :: "string list \<Rightarrow> string list \<Rightarrow> real" where
  "spec_share ts others =
     (if length ts = 0 then 0.5
      else real (length [t \<leftarrow> ts. t \<in> set others]) / real (max 1 (length ts)))"

definition spec_lexical :: "string \<Rightarrow> string \<Rightarrow> source list \<Rightarrow> context_result" where
  "spec_lexical qry resp srcs =
     (let responseTokens = spec_kept 3 resp;
          sourceTokens = spec_kept 3 (join '' '' (map content srcs));
          queryTokens = spec_kept 2 qry;
          relevance = min 1.0 (spec_share responseTokens sourceTokens)
      in \<lparr>source_relevance = relevance,
          source_usage_rate = spec_share queryTokens responseTokens,
          valid = (relevance > 0.3)\<rparr>)"

section \<open>LLMJudge\<close>

text \<open>
  A thrown value: an \<open>Error\<close> instance with its message, or any other value. Every
  \<open>throw\<close>, rejected promise and failing built-in of the source is a value \<open>Inl e\<close>.
\<close>

datatype thrown = Error string | NonError

text \<open>
  What \<open>JSON.parse\<close> returns. A number of the run time is one of the doubles that are not
  finite, or a finite value, here a real.
\<close>

datatype jsnum = NaN | PosInfinity | NegInfinity | Finite real

datatype json =
    JNull
  | JBool bool
  | JNumber jsnum
  | JString string
  | JArray "json list"
  | JObject "(string \<times> json) list"

datatype provider_name = OpenAI | Claude

text \<open>
  The parts of the run time and of the outside world that the source calls and does not
  define; every function below takes them as the parameter \<open>env\<close>, and every theorem holds
  for all of them.
  \<^item> \<open>JSON_parse\<close>: \<open>JSON.parse\<close>, the parsed value or the \<open>SyntaxError\<close> thrown.
  \<^item> \<open>StringToNumber\<close>: \<open>Number\<close> on a string.
  \<^item> \<open>ArrayToNumber\<close>: \<open>Number\<close> on an array (the elements joined into a string, which
    is then read as a number); converting an element may throw.
  \<^item> \<open>callOpenAI\<close>, \<open>callClaude\<close>: \<open>buildValidationPrompt\<close> followed by the call of the
    provider, given developer mode, query, response and sources: the raw text returned, or
    the value the call rejects with.
  \<^item> \<open>classifyQuery\<close>, \<open>checkAccuracy\<close>, \<open>detectHallucination\<close>: the collaborators of
    \<open>AIValidator\<close>, each resolving with a result or rejecting.
\<close>

record classification =
  c_type :: string
  c_confidence :: real
  skip_validation :: bool

record env =
  JSON_parse :: "string \<Rightarrow> thrown + json"
  StringToNumber :: "string \<Rightarrow> jsnum"
  ArrayToNumber :: "json list \<Rightarrow> thrown + jsnum"
  callOpenAI :: "bool \<Rightarrow> string \<Rightarrow> string \<Rightarrow> source list \<Rightarrow> thrown + string"
  callClaude :: "bool \<Rightarrow> string \<Rightarrow> string \<Rightarrow> source list \<Rightarrow> thrown + string"
  classifyQuery :: "string \<Rightarrow> thrown + classification"
  checkAccuracy ::
    "string \<Rightarrow> source list \<Rightarrow> provider_name \<Rightarrow> string \<Rightarrow> thrown + accuracy_result"
  detectHallucination ::
    "string \<Rightarrow> source list \<Rightarrow> provider_name \<Rightarrow> string \<Rightarrow> thrown + hallucination_result"

text \<open>
  \<open>result.match(/\{[\s\S]*\}/)\<close>, the matched text \<open>jsonMatch[0]\<close> or \<open>None\<close> for
  \<open>null\<close>. The match starts at the first \<open>{\<close>; the star is greedy and \<open>[\s\S]\<close> takes every
  character, so the match ends at the last \<open>}\<close> behind that \<open>{\<close>.
\<close>

definition jsonMatch :: "string \<Rightarrow> string option" where
  "jsonMatch result =
     (case dropWhile (\<lambda>c. c \<noteq> CHR ''{'') result of
        [] \<Rightarrow> None
      | open_brace # rest \<Rightarrow>
          (case dropWhile (\<lambda>c. c \<noteq> CHR ''}'') (rev rest) of
             [] \<Rightarrow> None
           | inner \<Rightarrow> Some (open_brace # rev inner)))"

text \<open>
  Reading one of the properties \<open>valid\<close>, \<open>source_relevance\<close>, \<open>source_usage_rate\<close> of a
  parsed value; \<open>None\<close> is \<open>undefined\<close>. Reading a property of \<open>null\<close> throws a
  \<open>TypeError\<close>; numbers, strings, booleans and arrays have none of these three properties.
\<close>

fun getProperty :: "json \<Rightarrow> string \<Rightarrow> thrown + json option" where
  "getProperty JNull name = Inl (Error ''Cannot read properties of null'')"
| "getProperty (JObject props) name = Inr (map_of props name)"
| "getProperty _ name = Inr None"

text \<open>
  \<open>Number(v)\<close>. An object is converted through its \<open>valueOf\<close> and \<open>toString\<close>: an object
  built by \<open>JSON.parse\<close> that has a property \<open>toString\<close> of its own hides the callable one of
  the prototype, and the conversion throws a \<open>TypeError\<close>; any other object reads as
  \<open>[object Object]\<close>, which is not a number.
\<close>

fun Number :: "env \<Rightarrow> json option \<Rightarrow> thrown + jsnum" where
  "Number env None = Inr NaN"
| "Number env (Some JNull) = Inr (Finite 0)"
| "Number env (Some (JBool b)) = Inr (Finite (if b then 1 else 0))"
| "Number env (Some (JNumber n)) = Inr n"
| "Number env (Some (JString s)) = Inr (StringToNumber env s)"
| "Number env (Some (JArray xs)) = ArrayToNumber env xs"
| "Number env (Some (JObject props)) =
     (if map_of props ''toString'' \<noteq> None
      then Inl (Error ''Cannot convert object to primitive value'')
      else Inr NaN)"

text \<open>
  \<open>Math.max(0, Math.min(1, n || 0))\<close>: \<open>NaN\<close> and zero are falsy and give \<open>0\<close>; the result
  is a finite number.
\<close>

fun clamp01 :: "jsnum \<Rightarrow> real" where
  "clamp01 NaN = 0"
| "clamp01 PosInfinity = 1"
| "clamp01 NegInfinity = 0"
| "clamp01 (Finite r) = max 0 (min 1 (if r = 0 then 0 else r))"

text \<open>
  Two definitions that follow the words of the specification, not the source. The first
  brace-delimited block of a text: from its first \<open>{\<close> to the first \<open>}\<close> behind it (for a
  block without nested braces, the block up to its closing brace). A rate whose value is
  missing or not a number is read as 0, a number is clamped.
\<close>

definition spec_firstBlock :: "string \<Rightarrow> string option" where
  "spec_firstBlock result =
     (case dropWhile (\<lambda>c. c \<noteq> CHR ''{'') result of
        [] \<Rightarrow> None
      | open_brace # rest \<Rightarrow>
          (case dropWhile (\<lambda>c. c \<noteq> CHR ''}'') rest of
             [] \<Rightarrow> None
           | close_brace # behind \<Rightarrow>
               Some (open_brace # takeWhile (\<lambda>c. c \<noteq> CHR ''}'') rest @ [close_brace])))"

definition spec_rate :: "json option \<Rightarrow> real" where
  "spec_rate v = (case v of Some (JNumber n) \<Rightarrow> clamp01 n | _ \<Rightarrow> 0)"

text \<open>The body of the \<open>try\<close> block of \<open>parseValidationResult\<close>.\<close>

definition parseAttempt :: "env \<Rightarrow> string \<Rightarrow> thrown + context_result" where
  "parseAttempt env result =
     (case jsonMatch result of
        None \<Rightarrow> Inl (Error ''No JSON found in response'')
      | Some matched \<Rightarrow>
          (case JSON_parse env matched of
             Inl e \<Rightarrow> Inl e
           | Inr parsed \<Rightarrow>
               (case getProperty parsed ''valid'' of
                  Inl e \<Rightarrow> Inl e
                | Inr v \<Rightarrow>
                    (case getProperty parsed ''source_relevance'' of
                       Inl e \<Rightarrow> Inl e
                     | Inr sr \<Rightarrow>
                         (case Number env sr of
                            Inl e \<Rightarrow> Inl e
                          | Inr srn \<Rightarrow>
                              (case getProperty parsed ''source_usage_rate'' of
                                 Inl e \<Rightarrow> Inl e
                               | Inr su \<Rightarrow>
                                   (case Number env su of
                                      Inl e \<Rightarrow> Inl e
                                    | Inr sun \<Rightarrow>
                                        Inr \<lparr>source_relevance = clamp01 srn,
                                             source_usage_rate = clamp01 sun,
                                             valid = (v = Some (JBool True))\<rparr>)))))))"

text \<open>The record of the \<open>catch\<close> block.\<close>

definition parseDefaults :: context_result where
  "parseDefaults = \<lparr>source_relevance = 0.5, source_usage_rate = 0.5, valid = False\<rparr>"

definition parseValidationResult :: "env \<Rightarrow> string \<Rightarrow> context_result" where
  "parseValidationResult env result =
     (case parseAttempt env result of
        Inr r \<Rightarrow> r
      | Inl e \<Rightarrow> parseDefaults)"

text \<open>
  The state of an \<open>LLMJudge\<close>: which clients the constructor built, the provider it chose
  and the mode.
\<close>

record llm_judge =
  judge_openai :: bool
  judge_anthropic :: bool
  judge_provider :: provider_name
  judge_developerMode :: bool

definition judgeValidateContext ::
  "env \<Rightarrow> llm_judge \<Rightarrow> string \<Rightarrow> string \<Rightarrow> source list \<Rightarrow> thrown + context_result"
where
  "judgeValidateContext env judge qry resp srcs =
     (let called =
            (if judge_provider judge = OpenAI \<and> judge_openai judge
             then callOpenAI env (judge_developerMode judge) qry resp srcs
             else if judge_provider judge = Claude \<and> judge_anthropic judge
             then callClaude env (judge_developerMode judge) qry resp srcs
             else Inl (Error ''No LLM provider available''))
      in case called of
           Inl e \<Rightarrow> Inl e
         | Inr result \<Rightarrow> Inr (parseValidationResult env result))"

section \<open>ContextValidator\<close>

record context_validator =
  cv_useLLMJudge :: bool
  cv_llmJudge :: "llm_judge option"

text \<open>
  \<open>validateContext\<close> returns its result together with the graders it has invoked, in the
  order of the calls, so that a statement on what a call invokes can be made.
\<close>

datatype grader_call = LLMJudgeCall | WordMatchingCall

definition validateContext ::
  "env \<Rightarrow> context_validator \<Rightarrow> string \<Rightarrow> string \<Rightarrow> source list
     \<Rightarrow> context_result \<times> grader_call list"
where
  "validateContext env cv qry resp srcs =
     (if length srcs = 0 then
        (\<lparr>source_relevance = 0, source_usage_rate = 0, valid = False\<rparr>, [])
      else if cv_useLLMJudge cv \<and> cv_llmJudge cv \<noteq> None then
        (case judgeValidateContext env (the (cv_llmJudge cv)) qry resp srcs of
           Inr r \<Rightarrow> (r, [LLMJudgeCall])
         | Inl e \<Rightarrow> (wordMatchingValidation qry resp srcs, [LLMJudgeCall, WordMatchingCall]))
      else (wordMatchingValidation qry resp srcs, [WordMatchingCall]))"

section \<open>AIValidator\<close>

record validation_result =
  r_confidence :: real
  r_valid :: bool
  r_accuracy :: accuracy_result
  r_context :: context_result
  r_hallucination :: hallucination_result
  r_warnings :: "string list"
  r_query_type :: "string option"
  r_skip_validation :: "bool option"

text \<open>
  \<open>AIValidatorConfig\<close> as \<open>this.config\<close> holds it. Every optional field may be
  \<open>undefined\<close>; the source tests the toggles for truthiness.
\<close>

record config =
  openaiApiKey :: "string option"
  claudeApiKey :: "string option"
  llmProvider :: provider_name
  confidenceThreshold :: "real option"
  enableQueryClassification :: "bool option"
  enableAccuracyCheck :: "bool option"
  enableHallucinationDetection :: "bool option"
  enableContextValidation :: "bool option"
  useLLMJudge :: "bool option"
  developerMode :: "bool option"
  openaiModel :: "string option"
  claudeModel :: "string option"

record ai_validator =
  config :: config
  contextValidator :: context_validator

definition truthy :: "bool option \<Rightarrow> bool" where
  "truthy b = (b = Some True)"

text \<open>\<open>s || fallback\<close> on an optional string: \<open>undefined\<close> and the empty string are falsy.\<close>

definition orString :: "string option \<Rightarrow> string \<Rightarrow> string" where
  "orString s fallback = (case s of None \<Rightarrow> fallback | Some t \<Rightarrow> if t = [] then fallback else t)"

definition getModel :: "config \<Rightarrow> string" where
  "getModel cfg =
     (if llmProvider cfg = OpenAI then orString (openaiModel cfg) ''gpt-4o''
      else orString (claudeModel cfg) ''claude-sonnet-4-5-20250929'')"

text \<open>\<open>this.config.confidenceThreshold || 0.7\<close>: \<open>undefined\<close> and \<open>0\<close> are falsy.\<close>

definition threshold :: "config \<Rightarrow> real" where
  "threshold cfg =
     (case confidenceThreshold cfg of None \<Rightarrow> 0.7 | Some t \<Rightarrow> if t = 0 then 0.7 else t)"

definition generateWarnings ::
  "accuracy_result \<Rightarrow> context_result \<Rightarrow> hallucination_result \<Rightarrow> source list \<Rightarrow> string list"
where
  "generateWarnings accuracyResult contextResult hallucinationResult srcs =
     (if length srcs = 0 then [''No sources provided - high hallucination risk''] else []) @
     (if verification_rate accuracyResult < 0.5 then [''Low accuracy verification rate''] else []) @
     (if source_relevance contextResult < 0.3 then [''Low context relevance''] else []) @
     (if risk hallucinationResult > 0.5 then [''High hallucination risk detected''] else []) @
     (if detected hallucinationResult then [''Hallucination detected in response''] else [])"

text \<open>The record returned when the classification asks to skip the validation.\<close>

definition skipResult :: "classification \<Rightarrow> validation_result" where
  "skipResult c =
     \<lparr>r_confidence = 1.0, r_valid = True,
      r_accuracy = \<lparr>verified = True, verification_rate = 1.0, reason = None\<rparr>,
      r_context = \<lparr>source_relevance = 1.0, source_usage_rate = 1.0, valid = True\<rparr>,
      r_hallucination = \<lparr>detected = False, risk = 0, hallucinated_parts = None\<rparr>,
      r_warnings = [],
      r_query_type = Some (c_type c),
      r_skip_validation = Some True\<rparr>"

text \<open>Steps 3 to 5 of \<open>validate\<close>, once the three checks have resolved.\<close>

definition fuse ::
  "config \<Rightarrow> validation_input \<Rightarrow> accuracy_result \<Rightarrow> context_result \<Rightarrow> hallucination_result
     \<Rightarrow> validation_result"
where
  "fuse cfg input accuracyResult contextResult hallucinationResult =
     (let confidenceResult =
            calculateConfidence accuracyResult contextResult hallucinationResult (sources input)
              (Some \<lparr>accuracy = Some (truthy (enableAccuracyCheck cfg)),
                     hallucination = Some (truthy (enableHallucinationDetection cfg))\<rparr>);
          warnings = generateWarnings accuracyResult contextResult hallucinationResult (sources input);
          is_valid = (confidence_score confidenceResult \<ge> threshold cfg)
      in \<lparr>r_confidence = confidence_score confidenceResult,
          r_valid = is_valid,
          r_accuracy = accuracyResult,
          r_context = contextResult,
          r_hallucination = hallucinationResult,
          r_warnings = warnings,
          r_query_type = None,
          r_skip_validation = None\<rparr>)"

text \<open>The three promises handed to \<open>Promise.all\<close>.\<close>

definition accuracyPromise :: "env \<Rightarrow> config \<Rightarrow> validation_input \<Rightarrow> thrown + accuracy_result" where
  "accuracyPromise env cfg input =
     (if truthy (enableAccuracyCheck cfg)
      then checkAccuracy env (response input) (sources input) (llmProvider cfg) (getModel cfg)
      else Inr \<lparr>verified = True, verification_rate = 1.0, reason = None\<rparr>)"

definition contextPromise ::
  "env \<Rightarrow> ai_validator \<Rightarrow> validation_input \<Rightarrow> thrown + context_result"
where
  "contextPromise env v input =
     (if truthy (enableContextValidation (config v))
      then Inr (fst (validateContext env (contextValidator v)
                       (query input) (response input) (sources input)))
      else Inr \<lparr>source_relevance = 1.0, source_usage_rate = 1.0, valid = True\<rparr>)"

definition hallucinationPromise ::
  "env \<Rightarrow> config \<Rightarrow> validation_input \<Rightarrow> thrown + hallucination_result"
where
  "hallucinationPromise env cfg input =
     (if truthy (enableHallucinationDetection cfg)
      then detectHallucination env (response input) (sources input) (llmProvider cfg) (getModel cfg)
      else Inr \<lparr>detected = False, risk = 0, hallucinated_parts = None\<rparr>)"

text \<open>The values the promises that rejected have rejected with.\<close>

definition rejections ::
  "thrown + accuracy_result \<Rightarrow> thrown + context_result \<Rightarrow> thrown + hallucination_result
     \<Rightarrow> thrown list"
where
  "rejections a c h =
     (case a of Inl e \<Rightarrow> [e] | Inr _ \<Rightarrow> []) @
     (case c of Inl e \<Rightarrow> [e] | Inr _ \<Rightarrow> []) @
     (case h of Inl e \<Rightarrow> [e] | Inr _ \<Rightarrow> [])"

text \<open>
  Steps 2 to 5 of \<open>validate\<close>: the set of the possible outcomes, a value returned (\<open>Inr\<close>)
  or thrown (\<open>Inl\<close>). \<open>Promise.all\<close> rejects with the value of the promise that rejects
  first; which one that is depends on the timing of the three calls, so when several reject
  each of their values is a possible outcome.
\<close>

definition validateChecks ::
  "env \<Rightarrow> ai_validator \<Rightarrow> validation_input \<Rightarrow> (thrown + validation_result) set"
where
  "validateChecks env v input =
     (let a = accuracyPromise env (config v) input;
          c = contextPromise env v input;
          h = hallucinationPromise env (config v) input
      in case (a, c, h) of
           (Inr accuracyResult, Inr contextResult, Inr hallucinationResult) \<Rightarrow>
             {Inr (fuse (config v) input accuracyResult contextResult hallucinationResult)}
         | _ \<Rightarrow> Inl ` set (rejections a c h))"

text \<open>The body of the \<open>try\<close> block of \<open>validate\<close>.\<close>

definition validateAttempt ::
  "env \<Rightarrow> ai_validator \<Rightarrow> validation_input \<Rightarrow> (thrown + validation_result) set"
where
  "validateAttempt env v input =
     (if truthy (enableQueryClassification (config v)) then
        (case classifyQuery env (query input) of
           Inl e \<Rightarrow> {Inl e}
         | Inr c \<Rightarrow>
             if skip_validation c then {Inr (skipResult c)}
             else validateChecks env v input)
      else validateChecks env v input)"

text \<open>\<open>error instanceof Error ? error.message : 'unknown error'\<close>.\<close>

definition errorMessage :: "thrown \<Rightarrow> string" where
  "errorMessage e = (case e of Error m \<Rightarrow> m | NonError \<Rightarrow> ''unknown error'')"

text \<open>The record of the \<open>catch\<close> block of \<open>validate\<close>.\<close>

definition failedResult :: "thrown \<Rightarrow> validation_result" where
  "failedResult e =
     \<lparr>r_confidence = 0, r_valid = False,
      r_accuracy = \<lparr>verified = False, verification_rate = 0, reason = Some ''validation_error''\<rparr>,
      r_context = \<lparr>source_relevance = 0, source_usage_rate = 0, valid = False\<rparr>,
      r_hallucination = \<lparr>detected = True, risk = 1.0, hallucinated_parts = None\<rparr>,
      r_warnings = [''Validation failed: '' @ errorMessage e],
      r_query_type = None,
      r_skip_validation = None\<rparr>"

text \<open>
  \<open>validate\<close>: the results the returned promise can resolve with. The type has no place
  for a thrown value: whatever the \<open>try\<close> block throws, the \<open>catch\<close> block returns a record.
\<close>

definition validate :: "env \<Rightarrow> ai_validator \<Rightarrow> validation_input \<Rightarrow> validation_result set" where
  "validate env v input =
     (\<lambda>outcome. case outcome of Inr r \<Rightarrow> r | Inl e \<Rightarrow> failedResult e)
       ` validateAttempt env v input"

section \<open>A sample environment\<close>

text \<open>
  An environment, a validator and an input for the examples: \<open>sampleEnv\<close> answers as the
  run time does on the four texts it knows (any other text is a syntax error), its
  classifier is down for the query \<open>hi\<close>, and its accuracy checker and hallucination
  detector reject every call.
\<close>

definition sampleEnv :: env where
  \<open>sampleEnv =
     \<lparr>JSON_parse = (\<lambda>s.
        if s = ''{"valid": true, "source_relevance": 1.5}''
        then Inr (JObject [(''valid'', JBool True), (''source_relevance'', JNumber (Finite 1.5))])
        else if s = ''{"valid": true}''
        then Inr (JObject [(''valid'', JBool True)])
        else if s = ''{"valid": false, "source_relevance": true}''
        then Inr (JObject [(''valid'', JBool False), (''source_relevance'', JBool True)])
        else if s = ''{"valid": true, "source_relevance": {"toString": 1}}''
        then Inr (JObject [(''valid'', JBool True),
               (''source_relevance'', JObject [(''toString'', JNumber (Finite 1))])])
        else Inl (Error ''Unexpected token'')),
      StringToNumber = (\<lambda>s. NaN),
      ArrayToNumber = (\<lambda>xs. Inr NaN),
      callOpenAI = (\<lambda>dev q r srcs. Inl (Error ''timeout'')),
      callClaude = (\<lambda>dev q r srcs. Inl (Error ''timeout'')),
      classifyQuery = (\<lambda>q. if q = ''hi'' then Inl (Error ''classifier down'')
         else Inr \<lparr>c_type = ''question'', c_confidence = 0.9, skip_validation = False\<rparr>),
      checkAccuracy = (\<lambda>r srcs p m. Inl (Error ''rate limit'')),
      detectHallucination = (\<lambda>r srcs p m. Inl NonError)\<rparr>\<close>

definition sampleValidator :: "bool option \<Rightarrow> ai_validator" where
  "sampleValidator checks =
     \<lparr>config =
        \<lparr>openaiApiKey = Some ''sk-test'', claudeApiKey = None, llmProvider = OpenAI,
         confidenceThreshold = Some 0.7, enableQueryClassification = Some True,
         enableAccuracyCheck = checks, enableHallucinationDetection = checks,
         enableContextValidation = Some True, useLLMJudge = Some False,
         developerMode = Some False, openaiModel = Some ''gpt-4o-mini'',
         claudeModel = Some ''claude-3-haiku-20240307''\<rparr>,
      contextValidator = \<lparr>cv_useLLMJudge = False, cv_llmJudge = None\<rparr>\<rparr>"

definition sampleInput :: "string \<Rightarrow> validation_input" where
  "sampleInput q =
     \<lparr>query = q, response = ''Refunds are accepted within 30 days.'',
      sources = [\<lparr>content = ''Refunds are accepted within 30 days of purchase.'',
                  title = Some ''Policy'', url = None, ident = None, embedding = None\<rparr>]\<rparr>"

section \<open>Properties of the confidence fusion\<close>

lemma selectWeights_sum:
  "w_accuracy (selectWeights a h) + w_context (selectWeights a h)
     + w_hallucination (selectWeights a h) + w_sourceQuality (selectWeights a h) = 1"
  by (simp add: selectWeights_def)

lemma selectWeights_nonneg:
  "0 \<le> w_accuracy (selectWeights a h)" "0 \<le> w_context (selectWeights a h)"
  "0 \<le> w_hallucination (selectWeights a h)" "0 \<le> w_sourceQuality (selectWeights a h)"
  by (simp_all add: selectWeights_def)

text \<open>
  Claim C3. For each of the four pairs of flags the weights are those of the table of the
  specification; the weight of a disabled check is 0; the weights of the active metrics
  (those above 0, the ones the source lists as active) sum to 1; and the confidence score
  is the rounded sum of the scores weighted with them.
\<close>

theorem C3_weight_regimes:
  "selectWeights False False =
     \<lparr>w_accuracy = 0, w_context = 0.60, w_hallucination = 0, w_sourceQuality = 0.40\<rparr>
   \<and> selectWeights False True =
     \<lparr>w_accuracy = 0, w_context = 0.35, w_hallucination = 0.45, w_sourceQuality = 0.20\<rparr>
   \<and> selectWeights True False =
     \<lparr>w_accuracy = 0.50, w_context = 0.30, w_hallucination = 0, w_sourceQuality = 0.20\<rparr>
   \<and> selectWeights True True =
     \<lparr>w_accuracy = 0.35, w_context = 0.25, w_hallucination = 0.30, w_sourceQuality = 0.10\<rparr>
   \<and> w_accuracy (selectWeights False h) = 0
   \<and> w_hallucination (selectWeights a False) = 0
   \<and> sum_list (activeWeights (selectWeights a h)) = 1
   \<and> confidence_score
        (calculateConfidence acc ctx hall srcs
           (Some \<lparr>accuracy = Some a, hallucination = Some h\<rparr>))
      = Math_round (weightedSum (selectWeights a h) acc ctx hall srcs * 100) / 100"
  by (simp add: selectWeights_def activeWeights_def calculateConfidence_def Let_def
        accuracyEnabled_def hallucinationEnabled_def)

text \<open>
  Claim C8. With both the accuracy check and the hallucination check disabled, two calls
  that agree on the context result and on the sources return the same confidence score
  (and the same level), whatever their accuracy and hallucination results are.
\<close>

theorem C8_independence:
  "confidence_score
     (calculateConfidence acc1 ctx hall1 srcs
        (Some \<lparr>accuracy = Some False, hallucination = Some False\<rparr>))
   = confidence_score
       (calculateConfidence acc2 ctx hall2 srcs
          (Some \<lparr>accuracy = Some False, hallucination = Some False\<rparr>))
   \<and> level
     (calculateConfidence acc1 ctx hall1 srcs
        (Some \<lparr>accuracy = Some False, hallucination = Some False\<rparr>))
   = level
       (calculateConfidence acc2 ctx hall2 srcs
          (Some \<lparr>accuracy = Some False, hallucination = Some False\<rparr>))"
  by (simp add: calculateConfidence_def weightedSum_def selectWeights_def Let_def
        accuracyEnabled_def hallucinationEnabled_def)



lemma qualityBeforeCap_bounds: "1 / 2 \<le> qualityBeforeCap s \<and> qualityBeforeCap s \<le> 1"
  by (simp add: qualityBeforeCap_def Let_def)

lemma quality_uncapped: "quality s = qualityBeforeCap s"
  using qualityBeforeCap_bounds [of s] by (simp add: quality_def)

lemma quality_bounds: "1 / 2 \<le> quality s" "quality s \<le> 1"
  using qualityBeforeCap_bounds [of s] by (simp_all add: quality_uncapped)

lemma qualityLoop_lower: "t + real (length ss) / 2 \<le> qualityLoop t ss"
proof (induction ss arbitrary: t)
  case Nil
  show ?case by simp
next
  case (Cons s ss)
  have "t + real (length (s # ss)) / 2 \<le> (t + quality s) + real (length ss) / 2"
    using quality_bounds(1) [of s] by (simp add: field_simps)
  also have "\<dots> \<le> qualityLoop (t + quality s) ss" by (rule Cons.IH)
  finally show ?case by simp
qed

lemma qualityLoop_upper: "qualityLoop t ss \<le> t + real (length ss)"
proof (induction ss arbitrary: t)
  case Nil
  show ?case by simp
next
  case (Cons s ss)
  have "qualityLoop (t + quality s) ss \<le> (t + quality s) + real (length ss)" by (rule Cons.IH)
  also have "\<dots> \<le> t + real (length (s # ss))"
    using quality_bounds(2) [of s] by simp
  finally show ?case by simp
qed

lemma calculateSourceQuality_nonempty:
  assumes "srcs \<noteq> []"
  shows "1 / 2 \<le> calculateSourceQuality srcs" "calculateSourceQuality srcs \<le> 1"
proof -
  have n: "0 < real (length srcs)" using assms by simp
  have "real (length srcs) / 2 \<le> qualityLoop 0 srcs" using qualityLoop_lower [of 0 srcs] by simp
  then have "1 / 2 * real (length srcs) \<le> qualityLoop 0 srcs" by simp
  then have "1 / 2 \<le> qualityLoop 0 srcs / real (length srcs)"
    using n by (simp add: pos_le_divide_eq)
  then show "1 / 2 \<le> calculateSourceQuality srcs"
    using assms by (simp add: calculateSourceQuality_def)
  have "qualityLoop 0 srcs \<le> 1 * real (length srcs)" using qualityLoop_upper [of 0 srcs] by simp
  then have "qualityLoop 0 srcs / real (length srcs) \<le> 1"
    using n by (simp add: pos_divide_le_eq)
  then show "calculateSourceQuality srcs \<le> 1"
    using assms by (simp add: calculateSourceQuality_def)
qed

lemma calculateSourceQuality_range:
  "0 \<le> calculateSourceQuality srcs" "calculateSourceQuality srcs \<le> 1"
proof -
  show "0 \<le> calculateSourceQuality srcs"
  proof (cases "srcs = []")
    case True
    then show ?thesis by (simp add: calculateSourceQuality_def)
  next
    case False
    then show ?thesis using calculateSourceQuality_nonempty(1) [of srcs] by simp
  qed
  show "calculateSourceQuality srcs \<le> 1"
  proof (cases "srcs = []")
    case True
    then show ?thesis by (simp add: calculateSourceQuality_def)
  next
    case False
    then show ?thesis using calculateSourceQuality_nonempty(2) [of srcs] by simp
  qed
qed

lemma toDouble_half: "toDouble (1 / 2) = 1 / 2"
  by code_simp

lemma double_sums:
  "toDouble (1 / 2 + toDouble (1 / 10)) = 5404319552844595 / 9007199254740992"
  "toDouble (1 / 2 + toDouble (1 / 5)) = 3152519739159347 / 4503599627370496"
  "toDouble (3152519739159347 / 4503599627370496 + toDouble (1 / 10))
     = 7205759403792793 / 9007199254740992"
  "toDouble (3152519739159347 / 4503599627370496 + toDouble (1 / 5))
     = 2026619832316723 / 2251799813685248"
  "toDouble (2026619832316723 / 2251799813685248 + toDouble (1 / 10))
     = 9007199254740991 / 9007199254740992"
  by code_simp+

lemma qualityBeforeCapDouble_bounds:
  "1 / 2 \<le> qualityBeforeCapDouble s
   \<and> qualityBeforeCapDouble s \<le> 9007199254740991 / 9007199254740992"
  by (simp add: qualityBeforeCapDouble_def Let_def toDouble_half double_sums)

text \<open>
  Claim C9, as the specification states it, fails in one part: in the arithmetic of the
  source the base and the three bonuses do not sum to exactly 1.0. For a source with more
  than 500 characters and a title, \<open>0.5 + 0.2 + 0.2 + 0.1\<close> in doubles is
  \<open>0.9999999999999999\<close>, one unit in the last place below 1.
\<close>

theorem C9_counterexample:
  "qualityBeforeCapDouble
     \<lparr>content = replicate 501 (CHR ''x''), title = Some ''T'', url = None, ident = None,
        embedding = None\<rparr> = 9007199254740991 / 9007199254740992
   \<and> qualityBeforeCapDouble
     \<lparr>content = replicate 501 (CHR ''x''), title = Some ''T'', url = None, ident = None,
        embedding = None\<rparr> \<noteq> 1
   \<and> toDouble (toDouble (toDouble (toDouble 0.5 + toDouble 0.2) + toDouble 0.2) + toDouble (1 / 10))
        \<noteq> 1"
  by (simp add: qualityBeforeCapDouble_def Let_def hasTitle_def toDouble_half double_sums)

text \<open>
  Claim C9, amended. For a list of sources that is not empty, \<open>calculateSourceQuality\<close>
  lies between 0.5 and 1. Every source has at least the base quality 0.5, whatever its
  length and title; and the quality before the cap never exceeds 1, in exact arithmetic
  as in doubles (where it is at most \<open>0.9999999999999999\<close>), so the cap changes nothing.
\<close>

theorem C9_source_quality_range:
  "srcs \<noteq> [] \<Longrightarrow>
     1 / 2 \<le> calculateSourceQuality srcs \<and> calculateSourceQuality srcs \<le> 1
     \<and> 1 / 2 \<le> qualityBeforeCap s \<and> qualityBeforeCap s \<le> 1
     \<and> quality s = qualityBeforeCap s
     \<and> 1 / 2 \<le> qualityBeforeCapDouble s
     \<and> qualityBeforeCapDouble s \<le> 9007199254740991 / 9007199254740992
     \<and> qualityBeforeCapDouble s \<le> 1"
  using calculateSourceQuality_nonempty [of srcs] qualityBeforeCap_bounds [of s]
    qualityBeforeCapDouble_bounds [of s]
  by (simp add: quality_uncapped)

theorem C9_source_quality_range_witness:
  "[\<lparr>content = ''short'', title = None, url = None, ident = None, embedding = None\<rparr>] \<noteq> []
   \<and> calculateSourceQuality
        [\<lparr>content = ''short'', title = None, url = None, ident = None, embedding = None\<rparr>]
       = 1 / 2
   \<and> quality \<lparr>content = ''short'', title = None, url = None, ident = None, embedding = None\<rparr>
       = 1 / 2
   \<and> 1 / 2 \<le> qualityBeforeCapDouble
        \<lparr>content = ''short'', title = None, url = None, ident = None, embedding = None\<rparr>
   \<and> qualityBeforeCapDouble
        \<lparr>content = ''short'', title = None, url = None, ident = None, embedding = None\<rparr> \<le> 1"
  using C9_source_quality_range
    [of "[\<lparr>content = ''short'', title = None, url = None, ident = None, embedding = None\<rparr>]"
        "\<lparr>content = ''short'', title = None, url = None, ident = None, embedding = None\<rparr>"]
  by (simp add: hasTitle_def calculateSourceQuality_def quality_def qualityBeforeCap_def)

lemma Math_round_int: "Math_round x \<in> \<int>"
  by (simp add: Math_round_def)

lemma Math_round_close: "\<bar>Math_round x - x\<bar> \<le> 1 / 2"
  unfolding Math_round_def by linarith

lemma round2_close: "\<bar>Math_round (x * 100) / 100 - x\<bar> \<le> 1 / 200"
  using Math_round_close [of "x * 100"] by (simp add: abs_le_iff field_simps)

lemma round2_range:
  assumes "0 \<le> x" "x \<le> 1"
  shows "0 \<le> Math_round (x * 100) / 100" "Math_round (x * 100) / 100 \<le> 1"
proof -
  have "0 \<le> \<lfloor>x * 100 + 1 / 2\<rfloor>" using assms by simp
  then show "0 \<le> Math_round (x * 100) / 100" by (simp add: Math_round_def)
  have "x * 100 + 1 / 2 < 101" using assms by simp
  then have "\<lfloor>x * 100 + 1 / 2\<rfloor> < 101" by (simp add: floor_less_iff)
  then have "\<lfloor>x * 100 + 1 / 2\<rfloor> \<le> 100" by simp
  then have "real_of_int \<lfloor>x * 100 + 1 / 2\<rfloor> \<le> 100" by linarith
  then show "Math_round (x * 100) / 100 \<le> 1" by (simp add: Math_round_def)
qed

lemma weightedSum_range:
  assumes "0 \<le> verification_rate acc" "verification_rate acc \<le> 1"
    and "0 \<le> source_relevance ctx" "source_relevance ctx \<le> 1"
    and "0 \<le> risk hall" "risk hall \<le> 1"
  shows "0 \<le> weightedSum (selectWeights a h) acc ctx hall srcs"
    and "weightedSum (selectWeights a h) acc ctx hall srcs \<le> 1"
proof -
  have q: "0 \<le> calculateSourceQuality srcs" "calculateSourceQuality srcs \<le> 1"
    by (rule calculateSourceQuality_range)+
  show "0 \<le> weightedSum (selectWeights a h) acc ctx hall srcs"
    using assms q by (cases a; cases h) (simp_all add: weightedSum_def selectWeights_def)
  show "weightedSum (selectWeights a h) acc ctx hall srcs \<le> 1"
    using assms q
    by (cases a; cases h) (simp_all add: weightedSum_def selectWeights_def, argo+)
qed

text \<open>
  Claim C2. When the verification rate, the source relevance and the risk lie between 0
  and 1, the confidence score and the four fields of the breakdown lie between 0 and 1,
  and each of them is its value before rounding, rounded to two decimals: a whole number
  of hundredths, at most half a hundredth away from that value.
\<close>

theorem C2_confidence_ranges:
  assumes "0 \<le> verification_rate acc" "verification_rate acc \<le> 1"
    and "0 \<le> source_relevance ctx" "source_relevance ctx \<le> 1"
    and "0 \<le> risk hall" "risk hall \<le> 1"
  shows "0 \<le> confidence_score (calculateConfidence acc ctx hall srcs ec)
    \<and> confidence_score (calculateConfidence acc ctx hall srcs ec) \<le> 1
    \<and> 0 \<le> accuracy_score (breakdown (calculateConfidence acc ctx hall srcs ec))
    \<and> accuracy_score (breakdown (calculateConfidence acc ctx hall srcs ec)) \<le> 1
    \<and> 0 \<le> context_score (breakdown (calculateConfidence acc ctx hall srcs ec))
    \<and> context_score (breakdown (calculateConfidence acc ctx hall srcs ec)) \<le> 1
    \<and> 0 \<le> hallucination_score (breakdown (calculateConfidence acc ctx hall srcs ec))
    \<and> hallucination_score (breakdown (calculateConfidence acc ctx hall srcs ec)) \<le> 1
    \<and> 0 \<le> source_quality (breakdown (calculateConfidence acc ctx hall srcs ec))
    \<and> source_quality (breakdown (calculateConfidence acc ctx hall srcs ec)) \<le> 1
    \<and> confidence_score (calculateConfidence acc ctx hall srcs ec) * 100 \<in> \<int>
    \<and> \<bar>confidence_score (calculateConfidence acc ctx hall srcs ec)
         - weightedSum (selectWeights (accuracyEnabled ec) (hallucinationEnabled ec))
             acc ctx hall srcs\<bar> \<le> 1 / 200
    \<and> accuracy_score (breakdown (calculateConfidence acc ctx hall srcs ec)) * 100 \<in> \<int>
    \<and> \<bar>accuracy_score (breakdown (calculateConfidence acc ctx hall srcs ec))
         - verification_rate acc\<bar> \<le> 1 / 200
    \<and> context_score (breakdown (calculateConfidence acc ctx hall srcs ec)) * 100 \<in> \<int>
    \<and> \<bar>context_score (breakdown (calculateConfidence acc ctx hall srcs ec))
         - source_relevance ctx\<bar> \<le> 1 / 200
    \<and> hallucination_score (breakdown (calculateConfidence acc ctx hall srcs ec)) * 100 \<in> \<int>
    \<and> \<bar>hallucination_score (breakdown (calculateConfidence acc ctx hall srcs ec))
         - (1 - risk hall)\<bar> \<le> 1 / 200
    \<and> source_quality (breakdown (calculateConfidence acc ctx hall srcs ec)) * 100 \<in> \<int>
    \<and> \<bar>source_quality (breakdown (calculateConfidence acc ctx hall srcs ec))
         - calculateSourceQuality srcs\<bar> \<le> 1 / 200"
proof -
  let ?w = "weightedSum (selectWeights (accuracyEnabled ec) (hallucinationEnabled ec))
              acc ctx hall srcs"
  have cs: "confidence_score (calculateConfidence acc ctx hall srcs ec)
              = Math_round (?w * 100) / 100"
    by (simp add: calculateConfidence_def Let_def)
  have b1: "accuracy_score (breakdown (calculateConfidence acc ctx hall srcs ec))
              = Math_round (verification_rate acc * 100) / 100"
    by (simp add: calculateConfidence_def Let_def)
  have b2: "context_score (breakdown (calculateConfidence acc ctx hall srcs ec))
              = Math_round (source_relevance ctx * 100) / 100"
    by (simp add: calculateConfidence_def Let_def)
  have b3: "hallucination_score (breakdown (calculateConfidence acc ctx hall srcs ec))
              = Math_round ((1 - risk hall) * 100) / 100"
    by (simp add: calculateConfidence_def Let_def)
  have b4: "source_quality (breakdown (calculateConfidence acc ctx hall srcs ec))
              = Math_round (calculateSourceQuality srcs * 100) / 100"
    by (simp add: calculateConfidence_def Let_def)
  have h: "0 \<le> 1 - risk hall" "1 - risk hall \<le> 1" using assms by simp_all
  note w = weightedSum_range [OF assms, of "accuracyEnabled ec" "hallucinationEnabled ec" srcs]
  note q = calculateSourceQuality_range [of srcs]
  have int100: "\<And>x. Math_round x / 100 * 100 \<in> \<int>"
    using Math_round_int by simp
  show ?thesis
    unfolding cs b1 b2 b3 b4
    using round2_range [OF w] round2_range [OF assms(1,2)] round2_range [OF assms(3,4)]
      round2_range [OF h] round2_range [OF q] int100 round2_close
    by blast
qed

theorem C2_confidence_ranges_witness:
  "0 \<le> verification_rate \<lparr>verified = False, verification_rate = 0.333, reason = None\<rparr>
   \<and> verification_rate \<lparr>verified = False, verification_rate = 0.333, reason = None\<rparr> \<le> 1
   \<and> 0 \<le> source_relevance \<lparr>source_relevance = 1, source_usage_rate = 0, valid = True\<rparr>
   \<and> source_relevance \<lparr>source_relevance = 1, source_usage_rate = 0, valid = True\<rparr> \<le> 1
   \<and> 0 \<le> risk \<lparr>detected = False, risk = 0, hallucinated_parts = None\<rparr>
   \<and> risk \<lparr>detected = False, risk = 0, hallucinated_parts = None\<rparr> \<le> 1
   \<and> 0 \<le> confidence_score
        (calculateConfidence \<lparr>verified = False, verification_rate = 0.333, reason = None\<rparr>
           \<lparr>source_relevance = 1, source_usage_rate = 0, valid = True\<rparr>
           \<lparr>detected = False, risk = 0, hallucinated_parts = None\<rparr> [] None)
   \<and> confidence_score
        (calculateConfidence \<lparr>verified = False, verification_rate = 0.333, reason = None\<rparr>
           \<lparr>source_relevance = 1, source_usage_rate = 0, valid = True\<rparr>
           \<lparr>detected = False, risk = 0, hallucinated_parts = None\<rparr> [] None) \<le> 1
   \<and> confidence_score
        (calculateConfidence \<lparr>verified = False, verification_rate = 0.333, reason = None\<rparr>
           \<lparr>source_relevance = 1, source_usage_rate = 0, valid = True\<rparr>
           \<lparr>detected = False, risk = 0, hallucinated_parts = None\<rparr> [] None) * 100 \<in> \<int>
   \<and> \<bar>accuracy_score (breakdown
        (calculateConfidence \<lparr>verified = False, verification_rate = 0.333, reason = None\<rparr>
           \<lparr>source_relevance = 1, source_usage_rate = 0, valid = True\<rparr>
           \<lparr>detected = False, risk = 0, hallucinated_parts = None\<rparr> [] None))
        - 0.333\<bar> \<le> 1 / 200"
  using C2_confidence_ranges
    [of "\<lparr>verified = False, verification_rate = 0.333, reason = None\<rparr>"
        "\<lparr>source_relevance = 1, source_usage_rate = 0, valid = True\<rparr>"
        "\<lparr>detected = False, risk = 0, hallucinated_parts = None\<rparr>" "[]" None]
  by simp


text \<open>
  Claim C7, as the specification states it, fails: with all checks enabled, a verification
  rate of 0.2, a source relevance of 0.2, a risk of 0.8 and a source quality of 0.5, the
  confidence score is not 0.22.
\<close>

theorem C7_counterexample:
  "confidence_score
     (calculateConfidence \<lparr>verified = False, verification_rate = 0.2, reason = None\<rparr>
        \<lparr>source_relevance = 0.2, source_usage_rate = 0, valid = False\<rparr>
        \<lparr>detected = True, risk = 0.8, hallucinated_parts = None\<rparr>
        [\<lparr>content = ''short'', title = None, url = None, ident = None, embedding = None\<rparr>]
        (Some \<lparr>accuracy = Some True, hallucination = Some True\<rparr>)) \<noteq> 0.22
   \<and> calculateSourceQuality
        [\<lparr>content = ''short'', title = None, url = None, ident = None, embedding = None\<rparr>] = 0.5"
  by (simp add: calculateConfidence_def weightedSum_def selectWeights_def Let_def
        accuracyEnabled_def hallucinationEnabled_def Math_round_def
        calculateSourceQuality_def quality_def qualityBeforeCap_def hasTitle_def)

text \<open>
  Claim C7, amended. In that scenario the weighted sum 0.2 * 0.35 + 0.2 * 0.25 + 0.2 * 0.30
  + 0.5 * 0.10 is 0.23: the confidence score is 0.23, the level is low, the hallucination
  score is 0.2, and the warnings include the one on low accuracy, the one on low context
  relevance and the one on a high hallucination risk.
\<close>

theorem C7_scenario_C:
  assumes "verification_rate acc = 0.2" and "source_relevance ctx = 0.2"
    and "risk hall = 0.8" and "calculateSourceQuality srcs = 0.5"
  shows "weightedSum (selectWeights True True) acc ctx hall srcs
           = 0.2 * 0.35 + 0.2 * 0.25 + 0.2 * 0.30 + 0.5 * 0.10
    \<and> confidence_score
          (calculateConfidence acc ctx hall srcs
             (Some \<lparr>accuracy = Some True, hallucination = Some True\<rparr>)) = 0.23
    \<and> level
          (calculateConfidence acc ctx hall srcs
             (Some \<lparr>accuracy = Some True, hallucination = Some True\<rparr>)) = Low
    \<and> hallucination_score (breakdown
          (calculateConfidence acc ctx hall srcs
             (Some \<lparr>accuracy = Some True, hallucination = Some True\<rparr>))) = 0.2
    \<and> source_quality (breakdown
          (calculateConfidence acc ctx hall srcs
             (Some \<lparr>accuracy = Some True, hallucination = Some True\<rparr>))) = 0.5
    \<and> ''Low accuracy verification rate'' \<in> set (generateWarnings acc ctx hall srcs)
    \<and> ''Low context relevance'' \<in> set (generateWarnings acc ctx hall srcs)
    \<and> ''High hallucination risk detected'' \<in> set (generateWarnings acc ctx hall srcs)"
  by (simp add: calculateConfidence_def weightedSum_def selectWeights_def Let_def
        accuracyEnabled_def hallucinationEnabled_def Math_round_def generateWarnings_def assms)

theorem C7_scenario_C_witness:
  "verification_rate \<lparr>verified = False, verification_rate = 0.2, reason = None\<rparr> = 0.2
   \<and> source_relevance \<lparr>source_relevance = 0.2, source_usage_rate = 0, valid = False\<rparr> = 0.2
   \<and> risk \<lparr>detected = True, risk = 0.8, hallucinated_parts = None\<rparr> = 0.8
   \<and> calculateSourceQuality
        [\<lparr>content = ''short'', title = None, url = None, ident = None, embedding = None\<rparr>] = 0.5
   \<and> confidence_score
        (calculateConfidence \<lparr>verified = False, verification_rate = 0.2, reason = None\<rparr>
           \<lparr>source_relevance = 0.2, source_usage_rate = 0, valid = False\<rparr>
           \<lparr>detected = True, risk = 0.8, hallucinated_parts = None\<rparr>
           [\<lparr>content = ''short'', title = None, url = None, ident = None, embedding = None\<rparr>]
           (Some \<lparr>accuracy = Some True, hallucination = Some True\<rparr>)) = 0.23
   \<and> generateWarnings \<lparr>verified = False, verification_rate = 0.2, reason = None\<rparr>
        \<lparr>source_relevance = 0.2, source_usage_rate = 0, valid = False\<rparr>
        \<lparr>detected = True, risk = 0.8, hallucinated_parts = None\<rparr>
        [\<lparr>content = ''short'', title = None, url = None, ident = None, embedding = None\<rparr>]
      = [''Low accuracy verification rate'', ''Low context relevance'',
         ''High hallucination risk detected'', ''Hallucination detected in response'']"
proof -
  have q: "calculateSourceQuality
        [\<lparr>content = ''short'', title = None, url = None, ident = None, embedding = None\<rparr>] = 0.5"
    by (simp add: calculateSourceQuality_def quality_def qualityBeforeCap_def hasTitle_def)
  show ?thesis
    using C7_scenario_C
      [of "\<lparr>verified = False, verification_rate = 0.2, reason = None\<rparr>"
          "\<lparr>source_relevance = 0.2, source_usage_rate = 0, valid = False\<rparr>"
          "\<lparr>detected = True, risk = 0.8, hallucinated_parts = None\<rparr>"
          "[\<lparr>content = ''short'', title = None, url = None, ident = None, embedding = None\<rparr>]"]
      q
    by (simp add: generateWarnings_def)
qed

section \<open>Properties of the context validator\<close>

text \<open>
  Claim C4. For an empty list of sources \<open>validateContext\<close> returns relevance 0, usage
  rate 0 and \<open>valid = false\<close>, and invokes neither the semantic grader nor the lexical
  fallback, whatever the state of the validator is (grader enabled or not) and whatever
  query and response are.
\<close>

theorem C4_zero_sources:
  "validateContext env cv qry resp [] =
     (\<lparr>source_relevance = 0, source_usage_rate = 0, valid = False\<rparr>, [])"
  by (simp add: validateContext_def)

text \<open>
  With at least one source a grader is always invoked: the lexical fallback, unless the
  semantic grader was asked and has answered.
\<close>

lemma validateContext_invokes:
  "srcs \<noteq> [] \<Longrightarrow>
     snd (validateContext env cv qry resp srcs) = [LLMJudgeCall]
     \<or> WordMatchingCall \<in> set (snd (validateContext env cv qry resp srcs))"
  by (simp add: validateContext_def split: sum.splits)

lemma validateContext_fallback:
  "srcs \<noteq> [] \<Longrightarrow> WordMatchingCall \<in> set (snd (validateContext env cv qry resp srcs)) \<Longrightarrow>
     fst (validateContext env cv qry resp srcs) = wordMatchingValidation qry resp srcs"
  by (auto simp: validateContext_def split: sum.splits if_splits)

lemma countIncluded_eq:
  "countIncluded n ws others = n + length [t \<leftarrow> ws. t \<in> set others]"
  by (induction ws arbitrary: n) simp_all

lemma splitLoop_unfold:
  "splitLoop cur s =
     (cur @ takeWhile (\<lambda>x. \<not> isWhitespace x) s)
       # (case dropWhile (\<lambda>x. \<not> isWhitespace x) s of
            [] \<Rightarrow> []
          | c # cs \<Rightarrow> splitLoop [] (dropWhile isWhitespace cs))"
  by (induction cur s rule: splitLoop.induct) simp_all

lemma spec_tokens_Nil: "spec_tokens [] = []"
  by (subst spec_tokens.simps) simp

lemma spec_tokens_skip: "spec_tokens (dropWhile isWhitespace s) = spec_tokens s"
  by (subst (1 2) spec_tokens.simps) simp

lemma spec_tokens_Cons_ws: "isWhitespace c \<Longrightarrow> spec_tokens (c # cs) = spec_tokens (dropWhile isWhitespace cs)"
  using spec_tokens_skip [of "c # cs"] by simp

lemma split_nonempty_tokens: "[w \<leftarrow> splitLoop [] s. w \<noteq> []] = spec_tokens s"
proof (induction "length s" arbitrary: s rule: less_induct)
  case less
  show ?case
  proof (cases s)
    case Nil
    then show ?thesis by (simp add: spec_tokens_Nil)
  next
    case (Cons c cs)
    show ?thesis
    proof (cases "isWhitespace c")
      case True
      have "length (dropWhile isWhitespace cs) < length s"
        using Cons length_dropWhile_le [of isWhitespace cs] by simp
      then have "[w \<leftarrow> splitLoop [] (dropWhile isWhitespace cs). w \<noteq> []]
                   = spec_tokens (dropWhile isWhitespace cs)"
        by (rule less)
      then show ?thesis using True Cons by (simp add: spec_tokens_Cons_ws)
    next
      case False
      let ?rest = "dropWhile (\<lambda>x. \<not> isWhitespace x) cs"
      have st: "spec_tokens s = takeWhile (\<lambda>x. \<not> isWhitespace x) s # spec_tokens ?rest"
        using False Cons by (subst spec_tokens.simps) simp
      have sp: "splitLoop [] s = takeWhile (\<lambda>x. \<not> isWhitespace x) s
                  # (case ?rest of [] \<Rightarrow> [] | d # ds \<Rightarrow> splitLoop [] (dropWhile isWhitespace ds))"
        using False Cons by (subst splitLoop_unfold) simp
      have ne: "takeWhile (\<lambda>x. \<not> isWhitespace x) s \<noteq> []" using False Cons by simp
      have tl: "[w \<leftarrow> (case ?rest of [] \<Rightarrow> [] | d # ds \<Rightarrow> splitLoop [] (dropWhile isWhitespace ds)).
                   w \<noteq> []] = spec_tokens ?rest"
      proof (cases ?rest)
        case Nil
        show ?thesis unfolding Nil by (simp add: spec_tokens_Nil)
      next
        case (Cons d ds)
        have "d \<in> set ?rest" using Cons by simp
        have wd: "isWhitespace d" using hd_dropWhile [of "\<lambda>x. \<not> isWhitespace x" cs] Cons by simp
        have "length ds < length ?rest" using Cons by simp
        also have "\<dots> \<le> length cs" by (rule length_dropWhile_le)
        finally have "length (dropWhile isWhitespace ds) < length s"
          using \<open>s = c # cs\<close> length_dropWhile_le [of isWhitespace ds] by simp
        then have "[w \<leftarrow> splitLoop [] (dropWhile isWhitespace ds). w \<noteq> []]
                     = spec_tokens (dropWhile isWhitespace ds)"
          by (rule less)
        then show ?thesis using Cons wd by (simp add: spec_tokens_Cons_ws)
      qed
      show ?thesis unfolding st sp using ne tl by simp
    qed
  qed
qed

lemma kept_tokens: "[w \<leftarrow> split_ws s. length w > n] = [t \<leftarrow> spec_tokens s. length t > n]"
proof -
  have "[w \<leftarrow> split_ws s. length w > n] = [w \<leftarrow> [w \<leftarrow> splitLoop [] s. w \<noteq> []]. length w > n]"
    by (auto simp: split_ws_def intro: filter_cong)
  then show ?thesis by (simp only: split_nonempty_tokens)
qed

lemma normalize_eq: "stripNonWord (toLowerCase s) = spec_normalize s"
  by (simp add: stripNonWord_def toLowerCase_def spec_normalize_def)

lemma spec_normalize_append: "spec_normalize (a @ b) = spec_normalize a @ spec_normalize b"
  by (simp add: spec_normalize_def)

lemma spec_normalize_space: "spec_normalize '' '' = '' ''"
  by code_simp

lemma spec_normalize_Cons_space: "spec_normalize (CHR '' '' # s) = CHR '' '' # spec_normalize s"
  using spec_normalize_append [of "'' ''" s] by (simp add: spec_normalize_space)

lemma normalize_join:
  "join '' '' (map (\<lambda>s. stripNonWord (toLowerCase (content s))) srcs)
     = spec_normalize (join '' '' (map content srcs))"
proof (induction srcs rule: induct_list012)
  case 1
  show ?case by (simp add: spec_normalize_def)
next
  case (2 x)
  show ?case by (simp add: normalize_eq)
next
  case (3 x y zs)
  then show ?case
    by (simp add: normalize_eq spec_normalize_append spec_normalize_Cons_space)
qed

lemma max_1_length: "ts \<noteq> [] \<Longrightarrow> max (Suc 0) (length ts) = length ts"
  by (cases ts) simp_all

lemma share_eq:
  "(if length ts > 0 then real (countIncluded 0 ts others) / real (length ts) else 0.5)
     = spec_share ts others"
  by (cases "ts = []") (simp_all add: spec_share_def countIncluded_eq max_1_length)

lemma share_le_1: "spec_share ts others \<le> 1"
proof (cases "length ts = 0")
  case True
  then show ?thesis by (simp add: spec_share_def)
next
  case False
  have "length [t \<leftarrow> ts. t \<in> set others] \<le> length ts" by (rule length_filter_le)
  then have "real (length [t \<leftarrow> ts. t \<in> set others]) \<le> 1 * real (length ts)" by simp
  then have "real (length [t \<leftarrow> ts. t \<in> set others]) / real (length ts) \<le> 1"
    using False by (simp add: pos_divide_le_eq del: of_nat_le_iff)
  then show ?thesis using False by (simp add: spec_share_def max_1_length)
qed

text \<open>
  Claim C5. The lexical fallback computes what the specification describes: response,
  query and the concatenated source contents (one space between two contents) are
  lowercased and stripped of every character that is neither a word character nor
  whitespace, and cut at whitespace; of response and sources the tokens longer than 3 are
  kept, of the query those longer than 2. The relevance is the minimum of 1 and the share
  of the response tokens present among the source tokens, the usage rate is the share of
  the query tokens present among the response tokens, each share being 0.5 when there is
  no token to count, and \<open>valid\<close> says that the relevance exceeds 0.3. This holds for every
  list of sources, a fortiori for those that are not empty.
\<close>

theorem C5_lexical_fallback:
  "wordMatchingValidation qry resp srcs = spec_lexical qry resp srcs"
proof -
  have r: "[w \<leftarrow> split_ws (stripNonWord (toLowerCase resp)). length w > 3] = spec_kept 3 resp"
    by (simp add: kept_tokens normalize_eq spec_kept_def)
  have q: "[w \<leftarrow> split_ws (stripNonWord (toLowerCase qry)). length w > 2] = spec_kept 2 qry"
    by (simp add: kept_tokens normalize_eq spec_kept_def)
  have s: "[w \<leftarrow> split_ws (join '' '' (map (\<lambda>s. stripNonWord (toLowerCase (content s))) srcs)).
              length w > 3] = spec_kept 3 (join '' '' (map content srcs))"
    by (simp add: kept_tokens normalize_join spec_kept_def)
  have m: "\<And>x::real. (min 1 x > 3 / 10) = (x > 3 / 10)" by auto
  show ?thesis
    unfolding wordMatchingValidation_def spec_lexical_def Let_def r q s share_eq
    by (simp add: min.commute m)
qed

lemma wordMatchingValidation_example: "wordMatchingValidation ''What is the refund policy?'' ''The Refund policy allows returns.''
   [\<lparr>content = ''Refund'', title = None, url = None, ident = None, embedding = None\<rparr>,
    \<lparr>content = ''policy: returns within 30 days'', title = None, url = None, ident = None, embedding = None\<rparr>]
  = \<lparr>source_relevance = 3 / 4, source_usage_rate = 1 / 2, valid = True\<rparr>"
  by code_simp

section \<open>Properties of the parser of the semantic grader\<close>

lemma tl_dropWhile_has_close:
  "CHR ''}'' \<in> set (tl (dropWhile (\<lambda>x. x \<noteq> CHR ''{'') (a @ CHR ''{'' # b @ CHR ''}'' # c)))"
  by (induction a) simp_all

lemma jsonMatch_Some:
  assumes "jsonMatch raw = Some m"
  shows "\<exists>pre inner post. raw = pre @ m @ post \<and> m = CHR ''{'' # inner @ [CHR ''}'']
           \<and> CHR ''{'' \<notin> set pre \<and> CHR ''}'' \<notin> set post"
proof -
  let ?P = "\<lambda>x. x \<noteq> CHR ''{''" and ?Q = "\<lambda>x. x \<noteq> CHR ''}''"
  obtain ob rest where d: "dropWhile ?P raw = ob # rest"
    using assms by (auto simp: jsonMatch_def split: list.splits)
  have ob: "ob = CHR ''{''" using hd_dropWhile [of ?P raw] d by simp
  obtain cl inner' where i: "dropWhile ?Q (rev rest) = cl # inner'" and m: "m = ob # rev (cl # inner')"
    using assms d by (auto simp: jsonMatch_def split: list.splits)
  have cl: "cl = CHR ''}''" using hd_dropWhile [of ?Q "rev rest"] i by simp
  have "rev rest = takeWhile ?Q (rev rest) @ cl # inner'"
    using takeWhile_dropWhile_id [of ?Q "rev rest"] i by simp
  then have "rev (rev rest) = rev (takeWhile ?Q (rev rest) @ cl # inner')" by simp
  then have rest: "rest = rev inner' @ [cl] @ rev (takeWhile ?Q (rev rest))" by simp
  have raw: "raw = takeWhile ?P raw @ ob # rest"
    using takeWhile_dropWhile_id [of ?P raw] d by simp
  have p1: "CHR ''{'' \<notin> set (takeWhile ?P raw)"
    by (auto dest: set_takeWhileD)
  have p2: "CHR ''}'' \<notin> set (rev (takeWhile ?Q (rev rest)))"
    by (auto dest: set_takeWhileD)
  have "raw = takeWhile ?P raw @ m @ rev (takeWhile ?Q (rev rest))"
    using raw rest m by simp
  moreover have "m = CHR ''{'' # rev inner' @ [CHR ''}'']" using m ob cl by simp
  ultimately show ?thesis using p1 p2 by blast
qed

lemma jsonMatch_None_iff:
  "jsonMatch raw = None \<longleftrightarrow> \<not> (\<exists>a b c. raw = a @ CHR ''{'' # b @ CHR ''}'' # c)"
proof
  assume n: "jsonMatch raw = None"
  show "\<not> (\<exists>a b c. raw = a @ CHR ''{'' # b @ CHR ''}'' # c)"
  proof
    assume "\<exists>a b c. raw = a @ CHR ''{'' # b @ CHR ''}'' # c"
    then obtain a b c where raw: "raw = a @ CHR ''{'' # b @ CHR ''}'' # c" by blast
    let ?d = "dropWhile (\<lambda>x. x \<noteq> CHR ''{'') raw"
    have "CHR ''}'' \<in> set (tl ?d)" unfolding raw by (rule tl_dropWhile_has_close)
    then obtain ob rest where d: "?d = ob # rest" and r: "CHR ''}'' \<in> set rest"
      by (cases ?d) auto
    have "dropWhile (\<lambda>x. x \<noteq> CHR ''}'') (rev rest) \<noteq> []"
      using r by (simp add: dropWhile_eq_Nil_conv)
    then have "jsonMatch raw \<noteq> None"
      using d by (simp add: jsonMatch_def split: list.splits)
    with n show False by simp
  qed
next
  assume h: "\<not> (\<exists>a b c. raw = a @ CHR ''{'' # b @ CHR ''}'' # c)"
  show "jsonMatch raw = None"
  proof (rule ccontr)
    assume "jsonMatch raw \<noteq> None"
    then obtain m where "jsonMatch raw = Some m" by auto
    then obtain pre inner post where "raw = pre @ m @ post" "m = CHR ''{'' # inner @ [CHR ''}'']"
      using jsonMatch_Some by blast
    then have "raw = pre @ CHR ''{'' # inner @ CHR ''}'' # post" by simp
    with h show False by blast
  qed
qed

lemma clamp01_range: "0 \<le> clamp01 n \<and> clamp01 n \<le> 1"
  by (cases n) auto

lemma parse_failure_defaults:
  "parseAttempt env raw = Inl e \<Longrightarrow> parseValidationResult env raw = parseDefaults"
  by (simp add: parseValidationResult_def)

lemma parse_no_match: "jsonMatch raw = None \<Longrightarrow> \<exists>e. parseAttempt env raw = Inl e"
  by (simp add: parseAttempt_def)

lemma parse_malformed:
  "jsonMatch raw = Some m \<Longrightarrow> JSON_parse env m = Inl e \<Longrightarrow> parseAttempt env raw = Inl e"
  by (simp add: parseAttempt_def)

lemma parse_coercion_failure:
  assumes "jsonMatch raw = Some m" and "JSON_parse env m = Inr parsed"
    and "(\<exists>sr e. getProperty parsed ''source_relevance'' = Inr sr \<and> Number env sr = Inl e)
       \<or> (\<exists>su e. getProperty parsed ''source_usage_rate'' = Inr su \<and> Number env su = Inl e)"
  shows "\<exists>e. parseAttempt env raw = Inl e"
  using assms by (auto simp: parseAttempt_def split: sum.splits)

lemma parse_success:
  assumes "jsonMatch raw = Some m" and "JSON_parse env m = Inr parsed"
    and "getProperty parsed ''valid'' = Inr v"
    and "getProperty parsed ''source_relevance'' = Inr sr" and "Number env sr = Inr n1"
    and "getProperty parsed ''source_usage_rate'' = Inr su" and "Number env su = Inr n2"
  shows "parseValidationResult env raw =
           \<lparr>source_relevance = clamp01 n1, source_usage_rate = clamp01 n2,
            valid = (v = Some (JBool True))\<rparr>"
  using assms by (simp add: parseValidationResult_def parseAttempt_def)

lemma parseAttempt_Inr:
  assumes "parseAttempt env raw = Inr r"
  shows "\<exists>m parsed v sr n1 su n2. jsonMatch raw = Some m \<and> JSON_parse env m = Inr parsed
           \<and> getProperty parsed ''valid'' = Inr v
           \<and> getProperty parsed ''source_relevance'' = Inr sr \<and> Number env sr = Inr n1
           \<and> getProperty parsed ''source_usage_rate'' = Inr su \<and> Number env su = Inr n2
           \<and> r = \<lparr>source_relevance = clamp01 n1, source_usage_rate = clamp01 n2,
                   valid = (v = Some (JBool True))\<rparr>"
  using assms by (auto simp: parseAttempt_def split: option.splits sum.splits)

lemma parse_range:
  "0 \<le> source_relevance (parseValidationResult env raw)
   \<and> source_relevance (parseValidationResult env raw) \<le> 1
   \<and> 0 \<le> source_usage_rate (parseValidationResult env raw)
   \<and> source_usage_rate (parseValidationResult env raw) \<le> 1"
proof (cases "parseAttempt env raw")
  case (Inl e)
  then show ?thesis by (simp add: parseValidationResult_def parseDefaults_def)
next
  case (Inr r)
  from parseAttempt_Inr [OF Inr] obtain n1 n2 b where
    "r = \<lparr>source_relevance = clamp01 n1, source_usage_rate = clamp01 n2, valid = b\<rparr>"
    by blast
  then show ?thesis
    using Inr clamp01_range [of n1] clamp01_range [of n2]
    by (simp add: parseValidationResult_def)
qed

lemma parse_valid_only_true:
  assumes "valid (parseValidationResult env raw)"
  shows "\<exists>m parsed. jsonMatch raw = Some m \<and> JSON_parse env m = Inr parsed
           \<and> getProperty parsed ''valid'' = Inr (Some (JBool True))"
proof (cases "parseAttempt env raw")
  case (Inl e)
  then show ?thesis using assms by (simp add: parseValidationResult_def parseDefaults_def)
next
  case (Inr r)
  from parseAttempt_Inr [OF Inr] assms Inr show ?thesis
    by (auto simp: parseValidationResult_def)
qed

text \<open>
  Claim C6, as the specification states it, fails in two parts. The block that is parsed
  is not the first brace-delimited block: the match runs to the last \<open>}\<close> of the output,
  so a well-formed first block followed by text with a \<open>}\<close> is not parsed and the defaults
  are returned. And a value that is not a number is not always read as 0: \<open>true\<close>
  converts to 1.
\<close>

theorem C6_counterexample:
  \<open>jsonMatch ''{"valid": true} and {more}'' = Some ''{"valid": true} and {more}''
   \<and> spec_firstBlock ''{"valid": true} and {more}'' = Some ''{"valid": true}''
   \<and> jsonMatch ''{"valid": true} and {more}'' \<noteq> spec_firstBlock ''{"valid": true} and {more}''
   \<and> JSON_parse sampleEnv ''{"valid": true}'' = Inr (JObject [(''valid'', JBool True)])
   \<and> parseValidationResult sampleEnv ''{"valid": true} and {more}''
       = \<lparr>source_relevance = 0.5, source_usage_rate = 0.5, valid = False\<rparr>
   \<and> JSON_parse sampleEnv ''{"valid": false, "source_relevance": true}''
       = Inr (JObject [(''valid'', JBool False), (''source_relevance'', JBool True)])
   \<and> parseValidationResult sampleEnv ''{"valid": false, "source_relevance": true}''
       = \<lparr>source_relevance = 1, source_usage_rate = 0, valid = False\<rparr>
   \<and> spec_rate (Some (JBool True)) = 0
   \<and> source_relevance
        (parseValidationResult sampleEnv ''{"valid": false, "source_relevance": true}'')
       \<noteq> spec_rate (Some (JBool True))\<close>
  by (simp add: jsonMatch_def spec_firstBlock_def sampleEnv_def parseValidationResult_def
        parseAttempt_def parseDefaults_def spec_rate_def)

text \<open>
  Claim C6, amended. \<open>parseValidationResult\<close> returns a record for every raw output and
  every run time. The text that is parsed is the part of the output from its first \<open>{\<close>
  to its last \<open>}\<close>, and there is none exactly when no \<open>}\<close> follows a \<open>{\<close>. Whenever the
  \<open>try\<close> block throws, be it that nothing is matched, that \<open>JSON.parse\<close> rejects the
  matched text or that the conversion of a field to a number throws, the result is
  \<open>{valid: false, source_relevance: 0.5, source_usage_rate: 0.5}\<close>. Otherwise both rates
  are the numbers that \<open>Number\<close> converts the fields to (a number is itself, \<open>true\<close> is 1,
  \<open>false\<close> and \<open>null\<close> are 0, a string is what it reads as), clamped into the interval
  from 0 to 1, a missing field and a field that converts to \<open>NaN\<close> giving 0, and \<open>valid\<close>
  is true only when the parsed field is the boolean \<open>true\<close>.
\<close>

theorem C6_parseValidationResult:
  "(parseAttempt env raw = Inl e \<longrightarrow>
      parseValidationResult env raw =
        \<lparr>source_relevance = 0.5, source_usage_rate = 0.5, valid = False\<rparr>)
   \<and> (jsonMatch raw = None \<longrightarrow> (\<exists>e. parseAttempt env raw = Inl e))
   \<and> (jsonMatch raw = Some m \<and> JSON_parse env m = Inl e \<longrightarrow> parseAttempt env raw = Inl e)
   \<and> (jsonMatch raw = Some m \<and> JSON_parse env m = Inr parsed
        \<and> ((\<exists>sr e. getProperty parsed ''source_relevance'' = Inr sr \<and> Number env sr = Inl e)
           \<or> (\<exists>su e. getProperty parsed ''source_usage_rate'' = Inr su \<and> Number env su = Inl e))
        \<longrightarrow> (\<exists>e. parseAttempt env raw = Inl e))
   \<and> (jsonMatch raw = Some m \<and> JSON_parse env m = Inr parsed
        \<and> getProperty parsed ''valid'' = Inr v
        \<and> getProperty parsed ''source_relevance'' = Inr sr \<and> Number env sr = Inr n1
        \<and> getProperty parsed ''source_usage_rate'' = Inr su \<and> Number env su = Inr n2
        \<longrightarrow> parseValidationResult env raw =
              \<lparr>source_relevance = clamp01 n1, source_usage_rate = clamp01 n2,
               valid = (v = Some (JBool True))\<rparr>)
   \<and> 0 \<le> clamp01 n \<and> clamp01 n \<le> 1
   \<and> clamp01 (Finite x) = max 0 (min 1 x)
   \<and> clamp01 NaN = 0
   \<and> Number env None = Inr NaN
   \<and> Number env (Some (JNumber k)) = Inr k
   \<and> Number env (Some (JBool b)) = Inr (Finite (if b then 1 else 0))
   \<and> Number env (Some JNull) = Inr (Finite 0)
   \<and> Number env (Some (JString str)) = Inr (StringToNumber env str)
   \<and> 0 \<le> source_relevance (parseValidationResult env raw)
   \<and> source_relevance (parseValidationResult env raw) \<le> 1
   \<and> 0 \<le> source_usage_rate (parseValidationResult env raw)
   \<and> source_usage_rate (parseValidationResult env raw) \<le> 1
   \<and> (valid (parseValidationResult env raw) \<longrightarrow>
        (\<exists>m parsed. jsonMatch raw = Some m \<and> JSON_parse env m = Inr parsed
           \<and> getProperty parsed ''valid'' = Inr (Some (JBool True))))
   \<and> (jsonMatch raw = Some m \<longrightarrow>
        (\<exists>pre inner post. raw = pre @ m @ post \<and> m = CHR ''{'' # inner @ [CHR ''}'']
           \<and> CHR ''{'' \<notin> set pre \<and> CHR ''}'' \<notin> set post))
   \<and> (jsonMatch raw = None \<longleftrightarrow> \<not> (\<exists>a b c. raw = a @ CHR ''{'' # b @ CHR ''}'' # c))"
proof -
  have a1: "parseAttempt env raw = Inl e \<longrightarrow>
      parseValidationResult env raw =
        \<lparr>source_relevance = 0.5, source_usage_rate = 0.5, valid = False\<rparr>"
    using parse_failure_defaults [of env raw e] by (simp add: parseDefaults_def)
  have a2: "jsonMatch raw = None \<longrightarrow> (\<exists>e. parseAttempt env raw = Inl e)"
    using parse_no_match by blast
  have a3: "jsonMatch raw = Some m \<and> JSON_parse env m = Inl e \<longrightarrow> parseAttempt env raw = Inl e"
    using parse_malformed by blast
  have a4: "jsonMatch raw = Some m \<and> JSON_parse env m = Inr parsed
        \<and> ((\<exists>sr e. getProperty parsed ''source_relevance'' = Inr sr \<and> Number env sr = Inl e)
           \<or> (\<exists>su e. getProperty parsed ''source_usage_rate'' = Inr su \<and> Number env su = Inl e))
        \<longrightarrow> (\<exists>e. parseAttempt env raw = Inl e)"
    using parse_coercion_failure [of raw m env parsed] by blast
  have a5: "jsonMatch raw = Some m \<and> JSON_parse env m = Inr parsed
        \<and> getProperty parsed ''valid'' = Inr v
        \<and> getProperty parsed ''source_relevance'' = Inr sr \<and> Number env sr = Inr n1
        \<and> getProperty parsed ''source_usage_rate'' = Inr su \<and> Number env su = Inr n2
        \<longrightarrow> parseValidationResult env raw =
              \<lparr>source_relevance = clamp01 n1, source_usage_rate = clamp01 n2,
               valid = (v = Some (JBool True))\<rparr>"
    using parse_success [of raw m env parsed v sr n1 su n2] by blast
  have a6: "0 \<le> clamp01 n \<and> clamp01 n \<le> 1" by (rule clamp01_range)
  have a7: "clamp01 (Finite x) = max 0 (min 1 x) \<and> clamp01 NaN = 0 \<and> Number env None = Inr NaN
      \<and> Number env (Some (JNumber k)) = Inr k
      \<and> Number env (Some (JBool b)) = Inr (Finite (if b then 1 else 0))
      \<and> Number env (Some JNull) = Inr (Finite 0)
      \<and> Number env (Some (JString str)) = Inr (StringToNumber env str)"
    by simp
  have a8: "valid (parseValidationResult env raw) \<longrightarrow>
        (\<exists>m parsed. jsonMatch raw = Some m \<and> JSON_parse env m = Inr parsed
           \<and> getProperty parsed ''valid'' = Inr (Some (JBool True)))"
    using parse_valid_only_true by blast
  have a9: "jsonMatch raw = Some m \<longrightarrow>
        (\<exists>pre inner post. raw = pre @ m @ post \<and> m = CHR ''{'' # inner @ [CHR ''}'']
           \<and> CHR ''{'' \<notin> set pre \<and> CHR ''}'' \<notin> set post)"
    using jsonMatch_Some by blast
  show ?thesis
    using a1 a2 a3 a4 a5 a6 a7 a8 a9 parse_range [of env raw] jsonMatch_None_iff [of raw]
    by (intro conjI) (simp_all only:)
qed

theorem C6_parseValidationResult_witness:
  \<open>parseValidationResult sampleEnv ''I cannot judge this.''
     = \<lparr>source_relevance = 0.5, source_usage_rate = 0.5, valid = False\<rparr>
   \<and> jsonMatch ''{"valid": true} and {more}'' = Some ''{"valid": true} and {more}''
   \<and> JSON_parse sampleEnv ''{"valid": true} and {more}'' = Inl (Error ''Unexpected token'')
   \<and> parseValidationResult sampleEnv ''{"valid": true} and {more}''
     = \<lparr>source_relevance = 0.5, source_usage_rate = 0.5, valid = False\<rparr>
   \<and> jsonMatch ''Sure! {"valid": true, "source_relevance": 1.5} Hope this helps''
     = Some ''{"valid": true, "source_relevance": 1.5}''
   \<and> parseValidationResult sampleEnv
        ''Sure! {"valid": true, "source_relevance": 1.5} Hope this helps''
     = \<lparr>source_relevance = 1, source_usage_rate = 0, valid = True\<rparr>
   \<and> Number sampleEnv (Some (JObject [(''toString'', JNumber (Finite 1))]))
     = Inl (Error ''Cannot convert object to primitive value'')
   \<and> parseValidationResult sampleEnv ''{"valid": true, "source_relevance": {"toString": 1}}''
     = \<lparr>source_relevance = 0.5, source_usage_rate = 0.5, valid = False\<rparr>\<close>
  using
    C6_parseValidationResult
      [where env = sampleEnv and raw = "''I cannot judge this.''"
         and e = "Error ''No JSON found in response''"]
    C6_parseValidationResult
      [where env = sampleEnv and raw = \<open>''{"valid": true} and {more}''\<close>
         and m = \<open>''{"valid": true} and {more}''\<close> and e = "Error ''Unexpected token''"]
    C6_parseValidationResult
      [where env = sampleEnv
         and raw = \<open>''Sure! {"valid": true, "source_relevance": 1.5} Hope this helps''\<close>
         and m = \<open>''{"valid": true, "source_relevance": 1.5}''\<close>
         and parsed = "JObject [(''valid'', JBool True),
                         (''source_relevance'', JNumber (Finite 1.5))]"
         and v = "Some (JBool True)" and sr = "Some (JNumber (Finite 1.5))"
         and ?n1.0 = "Finite 1.5" and su = None and ?n2.0 = NaN]
    C6_parseValidationResult
      [where env = sampleEnv
         and raw = \<open>''{"valid": true, "source_relevance": {"toString": 1}}''\<close>
         and e = "Error ''Cannot convert object to primitive value''"]
  by (simp add: sampleEnv_def jsonMatch_def parseAttempt_def)

section \<open>Properties of the orchestrator\<close>

lemma validateChecks_rejected:
  assumes "rejections (accuracyPromise env (config v) input) (contextPromise env v input)
             (hallucinationPromise env (config v) input) \<noteq> []"
  shows "validateChecks env v input =
           Inl ` set (rejections (accuracyPromise env (config v) input)
                        (contextPromise env v input)
                        (hallucinationPromise env (config v) input))"
  using assms
  by (auto simp: validateChecks_def rejections_def Let_def split: sum.splits)

lemma validateChecks_resolved:
  assumes "accuracyPromise env (config v) input = Inr a"
    and "contextPromise env v input = Inr c"
    and "hallucinationPromise env (config v) input = Inr h"
  shows "validateChecks env v input = {Inr (fuse (config v) input a c h)}"
  using assms by (simp add: validateChecks_def)

lemma rejections_Nil:
  "rejections a c h = [] \<Longrightarrow> \<exists>a' c' h'. a = Inr a' \<and> c = Inr c' \<and> h = Inr h'"
  by (auto simp: rejections_def split: sum.splits)

lemma validateChecks_nonempty_finite:
  "validateChecks env v input \<noteq> {} \<and> finite (validateChecks env v input)"
proof (cases "rejections (accuracyPromise env (config v) input) (contextPromise env v input)
                (hallucinationPromise env (config v) input) = []")
  case True
  from rejections_Nil [OF True] obtain a c h where
    "accuracyPromise env (config v) input = Inr a" "contextPromise env v input = Inr c"
    "hallucinationPromise env (config v) input = Inr h"
    by blast
  then show ?thesis by (simp add: validateChecks_resolved)
next
  case False
  then show ?thesis by (simp add: validateChecks_rejected)
qed

lemma validateAttempt_nonempty: "validateAttempt env v input \<noteq> {}"
  using validateChecks_nonempty_finite [of env v input]
  by (simp add: validateAttempt_def split: sum.splits)

lemma validateAttempt_finite: "finite (validateAttempt env v input)"
  using validateChecks_nonempty_finite [of env v input]
  by (simp add: validateAttempt_def split: sum.splits)

lemma validate_classification_rejected:
  assumes "truthy (enableQueryClassification (config v))"
    and "classifyQuery env (query input) = Inl e"
  shows "validate env v input = {failedResult e}"
  using assms by (simp add: validate_def validateAttempt_def)

lemma validate_checks_rejected:
  assumes "\<not> truthy (enableQueryClassification (config v))
           \<or> (\<exists>c. classifyQuery env (query input) = Inr c \<and> \<not> skip_validation c)"
    and "rejections (accuracyPromise env (config v) input) (contextPromise env v input)
             (hallucinationPromise env (config v) input) \<noteq> []"
  shows "validate env v input =
           failedResult ` set (rejections (accuracyPromise env (config v) input)
                        (contextPromise env v input)
                        (hallucinationPromise env (config v) input))"
proof -
  have "validateAttempt env v input = validateChecks env v input"
    using assms(1) by (auto simp: validateAttempt_def)
  then show ?thesis
    unfolding validate_def validateChecks_rejected [OF assms(2)] by (simp add: image_image)
qed

lemma accuracy_rejection:
  assumes "truthy (enableAccuracyCheck (config v))"
    and "checkAccuracy env (response input) (sources input) (llmProvider (config v))
           (getModel (config v)) = Inl e"
  shows "e \<in> set (rejections (accuracyPromise env (config v) input) c h)"
  using assms by (simp add: rejections_def accuracyPromise_def)

lemma hallucination_rejection:
  assumes "truthy (enableHallucinationDetection (config v))"
    and "detectHallucination env (response input) (sources input) (llmProvider (config v))
           (getModel (config v)) = Inl e"
  shows "e \<in> set (rejections a c (hallucinationPromise env (config v) input))"
  using assms by (simp add: rejections_def hallucinationPromise_def)

lemma validate_thrown:
  "Inl e \<in> validateAttempt env v input \<Longrightarrow> failedResult e \<in> validate env v input"
  by (force simp: validate_def)

text \<open>
  Claim C1. \<open>validate\<close> always resolves with a result and throws nothing. When the query
  classification is enabled and rejects, the result is the fail-closed record with the
  warning \<open>Validation failed:\<close> followed by the message of the error. When the
  classification does not end the call and at least one of the three promises rejects,
  the result is that record for one of the values they rejected with; an enabled accuracy
  check or hallucination detection that rejects is among them. The record is confidence 0,
  not valid, accuracy unverified with rate 0 and reason \<open>validation_error\<close>, context
  0, 0 and not valid, hallucination detected with risk 1, and that single warning.
\<close>

theorem C1_validate_fail_closed:
  "validate env v input \<noteq> {}
   \<and> finite (validate env v input)
   \<and> (truthy (enableQueryClassification (config v))
        \<and> classifyQuery env (query input) = Inl e
      \<longrightarrow> validate env v input = {failedResult e})
   \<and> ((\<not> truthy (enableQueryClassification (config v))
          \<or> (\<exists>c. classifyQuery env (query input) = Inr c \<and> \<not> skip_validation c))
        \<and> rejections (accuracyPromise env (config v) input) (contextPromise env v input)
             (hallucinationPromise env (config v) input) \<noteq> []
      \<longrightarrow> validate env v input =
            failedResult ` set (rejections (accuracyPromise env (config v) input)
                                  (contextPromise env v input)
                                  (hallucinationPromise env (config v) input)))
   \<and> (truthy (enableAccuracyCheck (config v))
        \<and> checkAccuracy env (response input) (sources input) (llmProvider (config v))
             (getModel (config v)) = Inl e
      \<longrightarrow> e \<in> set (rejections (accuracyPromise env (config v) input)
                       (contextPromise env v input)
                       (hallucinationPromise env (config v) input)))
   \<and> (truthy (enableHallucinationDetection (config v))
        \<and> detectHallucination env (response input) (sources input) (llmProvider (config v))
             (getModel (config v)) = Inl e
      \<longrightarrow> e \<in> set (rejections (accuracyPromise env (config v) input)
                       (contextPromise env v input)
                       (hallucinationPromise env (config v) input)))
   \<and> (Inl e \<in> validateAttempt env v input \<longrightarrow> failedResult e \<in> validate env v input)
   \<and> failedResult e =
        \<lparr>r_confidence = 0, r_valid = False,
         r_accuracy = \<lparr>verified = False, verification_rate = 0,
                       reason = Some ''validation_error''\<rparr>,
         r_context = \<lparr>source_relevance = 0, source_usage_rate = 0, valid = False\<rparr>,
         r_hallucination = \<lparr>detected = True, risk = 1.0, hallucinated_parts = None\<rparr>,
         r_warnings = [''Validation failed: '' @ errorMessage e],
         r_query_type = None, r_skip_validation = None\<rparr>
   \<and> errorMessage (Error msg) = msg
   \<and> errorMessage NonError = ''unknown error''"
proof -
  have n: "validate env v input \<noteq> {}" "finite (validate env v input)"
    using validateAttempt_nonempty [of env v input] validateAttempt_finite [of env v input]
    by (simp_all add: validate_def)
  have c: "truthy (enableQueryClassification (config v))
        \<and> classifyQuery env (query input) = Inl e
      \<longrightarrow> validate env v input = {failedResult e}"
    using validate_classification_rejected by blast
  have r: "(\<not> truthy (enableQueryClassification (config v))
          \<or> (\<exists>c. classifyQuery env (query input) = Inr c \<and> \<not> skip_validation c))
        \<and> rejections (accuracyPromise env (config v) input) (contextPromise env v input)
             (hallucinationPromise env (config v) input) \<noteq> []
      \<longrightarrow> validate env v input =
            failedResult ` set (rejections (accuracyPromise env (config v) input)
                                  (contextPromise env v input)
                                  (hallucinationPromise env (config v) input))"
    using validate_checks_rejected [of v env input] by blast
  have a: "truthy (enableAccuracyCheck (config v))
        \<and> checkAccuracy env (response input) (sources input) (llmProvider (config v))
             (getModel (config v)) = Inl e
      \<longrightarrow> e \<in> set (rejections (accuracyPromise env (config v) input)
                       (contextPromise env v input)
                       (hallucinationPromise env (config v) input))"
    using accuracy_rejection by blast
  have h: "truthy (enableHallucinationDetection (config v))
        \<and> detectHallucination env (response input) (sources input) (llmProvider (config v))
             (getModel (config v)) = Inl e
      \<longrightarrow> e \<in> set (rejections (accuracyPromise env (config v) input)
                       (contextPromise env v input)
                       (hallucinationPromise env (config v) input))"
    using hallucination_rejection by blast
  have t: "Inl e \<in> validateAttempt env v input \<longrightarrow> failedResult e \<in> validate env v input"
    using validate_thrown by blast
  have f: "failedResult e =
        \<lparr>r_confidence = 0, r_valid = False,
         r_accuracy = \<lparr>verified = False, verification_rate = 0,
                       reason = Some ''validation_error''\<rparr>,
         r_context = \<lparr>source_relevance = 0, source_usage_rate = 0, valid = False\<rparr>,
         r_hallucination = \<lparr>detected = True, risk = 1.0, hallucinated_parts = None\<rparr>,
         r_warnings = [''Validation failed: '' @ errorMessage e],
         r_query_type = None, r_skip_validation = None\<rparr>"
    by (simp add: failedResult_def)
  have m: "errorMessage (Error msg) = msg" "errorMessage NonError = ''unknown error''"
    by (simp_all add: errorMessage_def)
  show ?thesis by (intro conjI) (rule n c r a h t f m)+
qed

theorem C1_validate_fail_closed_witness:
  "truthy (enableQueryClassification (config (sampleValidator (Some True))))
   \<and> classifyQuery sampleEnv (query (sampleInput ''hi'')) = Inl (Error ''classifier down'')
   \<and> validate sampleEnv (sampleValidator (Some True)) (sampleInput ''hi'')
       = {failedResult (Error ''classifier down'')}
   \<and> r_warnings (failedResult (Error ''classifier down''))
       = [''Validation failed: classifier down'']
   \<and> rejections
        (accuracyPromise sampleEnv (config (sampleValidator (Some True))) (sampleInput ''why?''))
        (contextPromise sampleEnv (sampleValidator (Some True)) (sampleInput ''why?''))
        (hallucinationPromise sampleEnv (config (sampleValidator (Some True)))
           (sampleInput ''why?''))
       = [Error ''rate limit'', NonError]
   \<and> validate sampleEnv (sampleValidator (Some True)) (sampleInput ''why?'')
       = failedResult ` set [Error ''rate limit'', NonError]
   \<and> r_warnings (failedResult NonError) = [''Validation failed: unknown error'']"
proof -
  let ?v = "sampleValidator (Some True)"
  have h1: "truthy (enableQueryClassification (config ?v))
              \<and> classifyQuery sampleEnv (query (sampleInput ''hi'')) = Inl (Error ''classifier down'')"
    by (simp add: sampleEnv_def sampleValidator_def sampleInput_def truthy_def)
  note t1 = C1_validate_fail_closed
              [of sampleEnv ?v "sampleInput ''hi''" "Error ''classifier down''" "''classifier down''"]
  have r1: "validate sampleEnv ?v (sampleInput ''hi'') = {failedResult (Error ''classifier down'')}"
    using t1 [THEN conjunct2, THEN conjunct2, THEN conjunct1] h1 by (rule mp)
  have w1: "r_warnings (failedResult (Error ''classifier down''))
              = [''Validation failed: classifier down'']"
    using t1 by (simp add: failedResult_def)
  have rj: "rejections
        (accuracyPromise sampleEnv (config ?v) (sampleInput ''why?''))
        (contextPromise sampleEnv ?v (sampleInput ''why?''))
        (hallucinationPromise sampleEnv (config ?v) (sampleInput ''why?''))
       = [Error ''rate limit'', NonError]"
    by (simp add: sampleEnv_def sampleValidator_def sampleInput_def truthy_def rejections_def
          accuracyPromise_def contextPromise_def hallucinationPromise_def)
  have h2: "(\<not> truthy (enableQueryClassification (config ?v))
          \<or> (\<exists>c. classifyQuery sampleEnv (query (sampleInput ''why?'')) = Inr c
                 \<and> \<not> skip_validation c))
        \<and> rejections
        (accuracyPromise sampleEnv (config ?v) (sampleInput ''why?''))
        (contextPromise sampleEnv ?v (sampleInput ''why?''))
        (hallucinationPromise sampleEnv (config ?v) (sampleInput ''why?'')) \<noteq> []"
    unfolding rj by (simp add: sampleEnv_def sampleInput_def)
  note t2 = C1_validate_fail_closed [of sampleEnv ?v "sampleInput ''why?''" NonError "''''"]
  have r2: "validate sampleEnv ?v (sampleInput ''why?'')
              = failedResult ` set [Error ''rate limit'', NonError]"
    using t2 [THEN conjunct2, THEN conjunct2, THEN conjunct2, THEN conjunct1] h2
    unfolding rj by (rule mp)
  have w2: "r_warnings (failedResult NonError) = [''Validation failed: unknown error'']"
    using t2 by (simp add: failedResult_def)
  show ?thesis using h1 r1 w1 rj r2 w2 by (intro conjI) (simp_all only:)
qed

end
